theory Spec2Isabelle
  imports Complex_Main
begin

section \<open>Configuration constants (config.py, flip\_tile.py)\<close>

definition FPS :: real where
  "FPS = 60"

definition FLIP_SPEED :: real where
  "FLIP_SPEED = 5.0"

definition LINE_FADE_SPEED :: int where
  "LINE_FADE_SPEED = 5"

section \<open>Python arithmetic used by the effects\<close>

text \<open>
  Python floats are modelled by the reals: the development abstracts from rounding.
  \<open>py_int\<close> is \<open>int(x)\<close> on a float (truncation towards zero), \<open>py_fmod\<close> is
  \<open>x % m\<close> on floats with a positive modulus (the result has the sign of \<open>m\<close>),
  \<open>radians\<close> is \<open>math.radians\<close>.
\<close>

definition py_int :: "real \<Rightarrow> int" where
  "py_int r = (if 0 \<le> r then \<lfloor>r\<rfloor> else \<lceil>r\<rceil>)"

definition py_fmod :: "real \<Rightarrow> real \<Rightarrow> real" where
  "py_fmod a m = a - m * of_int \<lfloor>a / m\<rfloor>"

definition radians :: "real \<Rightarrow> real" where
  "radians d = d * pi / 180"

datatype py_error = IndexError

text \<open>
  Indexing \<open>xs[i]\<close> of a Python list: \<open>i\<close> from 0 up, or from \<open>-len(xs)\<close> up to \<open>-1\<close>
  counting back from the end; any other index raises.
\<close>

definition py_index :: "'a list \<Rightarrow> int \<Rightarrow> py_error + 'a" where
  "py_index xs i =
     (if 0 \<le> i \<and> i < int (length xs) then Inr (xs ! nat i)
      else if - int (length xs) \<le> i \<and> i < 0 then Inr (xs ! nat (int (length xs) + i))
      else Inl IndexError)"

section \<open>Tile Animator (effects/flip\_tile.py)\<close>

text \<open>
  A bitmap is its rows of pixels, top to bottom. \<open>flip\<close> is \<open>pygame.transform.flip\<close>:
  the first flag mirrors left-right, the second top-bottom.
\<close>

type_synonym 'p surface = "'p list list"

definition flip :: "'p surface \<Rightarrow> bool \<Rightarrow> bool \<Rightarrow> 'p surface" where
  "flip s flip_x flip_y =
     (let s1 = (if flip_x then map rev s else s) in if flip_y then rev s1 else s1)"

datatype flip_direction = Horizontal | Vertical

record 'p flip_tile =
  tile_x :: int
  tile_y :: int
  tile_size :: int
  delay :: int
  edge_softness :: int
  reverse :: bool
  original_surface :: "'p surface"
  original_soft :: "'p surface"
  flip_angle :: real
  target_flips :: nat
  total_rotation :: real
  flip_direction :: flip_direction
  flip_speed :: real
  is_animating :: bool
  is_complete :: bool
  current_delay :: int
  line_alpha :: int
  flip_surfaces :: "'p surface list"
  flip_surfaces_soft :: "'p surface list"
  final_surface :: "'p surface"
  final_surface_soft :: "'p surface"

text \<open>
  The random draws of one tile: \<open>random.randint(1, 4)\<close>, \<open>random.choice\<close> of the direction,
  \<open>random.uniform(-2, 2)\<close>, and the two \<open>random.choice([True, False])\<close> of the scrambled
  start. \<open>valid_draws\<close> is the range the library gives them.
\<close>

record tile_draws =
  draw_flips :: nat
  draw_direction :: flip_direction
  draw_jitter :: real
  draw_mirror_x :: bool
  draw_mirror_y :: bool

definition valid_draws :: "tile_draws \<Rightarrow> bool" where
  "valid_draws r \<longleftrightarrow>
     1 \<le> draw_flips r \<and> draw_flips r \<le> 4 \<and> - 2 \<le> draw_jitter r \<and> draw_jitter r \<le> 2"

text \<open>The loop \<open>for i in range(self.target_flips)\<close>: the states appended after the first.\<close>

primrec flip_loop :: "nat \<Rightarrow> flip_direction \<Rightarrow> 'p surface \<Rightarrow> 'p surface list" where
  "flip_loop 0 d current = []"
| "flip_loop (Suc n) d current =
     (let current' = (if d = Horizontal then flip current True False
                      else flip current False True)
      in current' # flip_loop n d current')"

text \<open>
  One of the two parallel lists of \<open>_precompute_flip_states\<close>: the scrambled start, the
  loop's states, the last one overwritten (\<open>xs[-1] = original\<close>), the whole reversed
  (\<open>xs[::-1]\<close>) when \<open>reverse\<close> is set.
\<close>

definition flip_states ::
  "'p surface \<Rightarrow> bool \<Rightarrow> bool \<Rightarrow> nat \<Rightarrow> flip_direction \<Rightarrow> bool \<Rightarrow> 'p surface list" where
  "flip_states orig mirror_x mirror_y n d rv =
     (let current = orig;
          current = (if mirror_x then flip current True False else current);
          current = (if mirror_y then flip current False True else current);
          xs = current # flip_loop n d current;
          xs = xs[length xs - 1 := orig]
      in if rv then rev xs else xs)"

definition precompute_flip_states :: "'p flip_tile \<Rightarrow> bool \<Rightarrow> bool \<Rightarrow> 'p flip_tile" where
  "precompute_flip_states t mirror_x mirror_y =
     (let fs = flip_states (original_surface t) mirror_x mirror_y
                 (target_flips t) (flip_direction t) (reverse t);
          fs_soft = flip_states (original_soft t) mirror_x mirror_y
                 (target_flips t) (flip_direction t) (reverse t)
      in t\<lparr>flip_surfaces := fs, flip_surfaces_soft := fs_soft,
            final_surface := last fs, final_surface_soft := last fs_soft\<rparr>)"

text \<open>
  \<open>FlipTile.__init__\<close>. The tile's sub-image \<open>original_surface\<close> and its feathered variant
  \<open>original_soft\<close> are what the two pygame blits of the constructor produce; the model
  takes them as given, so every statement below holds for any pair of bitmaps.
\<close>

definition FlipTile_init ::
  "'p surface \<Rightarrow> 'p surface \<Rightarrow> int \<Rightarrow> int \<Rightarrow> int \<Rightarrow> int \<Rightarrow> int \<Rightarrow> bool \<Rightarrow> tile_draws
     \<Rightarrow> 'p flip_tile" where
  "FlipTile_init sub_image sub_soft x y sz dl edge rv r =
     precompute_flip_states
       \<lparr>tile_x = x, tile_y = y, tile_size = sz, delay = dl, edge_softness = edge,
        reverse = rv, original_surface = sub_image, original_soft = sub_soft,
        flip_angle = 0, target_flips = draw_flips r,
        total_rotation = real (draw_flips r * 180),
        flip_direction = draw_direction r,
        flip_speed = FLIP_SPEED + draw_jitter r,
        is_animating = False, is_complete = False, current_delay = dl,
        line_alpha = (if \<not> rv then 255 else 0),
        flip_surfaces = [], flip_surfaces_soft = [],
        final_surface = [], final_surface_soft = []\<rparr>
       (draw_mirror_x r) (draw_mirror_y r)"

definition start_animation :: "'p flip_tile \<Rightarrow> 'p flip_tile" where
  "start_animation t = t\<lparr>is_animating := True\<rparr>"

definition FlipTile_update :: "'p flip_tile \<Rightarrow> 'p flip_tile" where
  "FlipTile_update t =
     (if is_complete t then
        (if reverse t then
           (if line_alpha t < 255
            then t\<lparr>line_alpha := min 255 (line_alpha t + LINE_FADE_SPEED * 2)\<rparr> else t)
         else
           (if line_alpha t > 0
            then t\<lparr>line_alpha := max 0 (line_alpha t - LINE_FADE_SPEED)\<rparr> else t))
      else
        let t1 = (if reverse t \<and> is_animating t \<and> line_alpha t < 255
                  then t\<lparr>line_alpha := min 255 (line_alpha t + LINE_FADE_SPEED)\<rparr> else t)
        in if current_delay t1 > 0 then t1\<lparr>current_delay := current_delay t1 - 1\<rparr>
           else
             let t2 = (if \<not> is_animating t1 then start_animation t1 else t1);
                 t3 = t2\<lparr>flip_angle := flip_angle t2 + flip_speed t2\<rparr>
             in if flip_angle t3 \<ge> total_rotation t3
                then t3\<lparr>flip_angle := total_rotation t3, is_complete := True\<rparr>
                else t3)"

text \<open>
  \<open>FlipTile.draw\<close> issues one blit: of a precomputed state as it is at a position, or of
  a state rescaled by \<open>pygame.transform.smoothscale\<close> to a size \<open>(width, height)\<close>, given
  first, at a position, given second.
\<close>

datatype 'p blit =
  Blit "'p surface" "int \<times> int"
| BlitScaled "'p surface" "int \<times> int" "int \<times> int"

definition draw_scale :: "real \<Rightarrow> real" where
  "draw_scale angle = max 0.02 \<bar>cos (radians (py_fmod angle 180))\<bar>"

definition FlipTile_draw :: "'p flip_tile \<Rightarrow> bool \<Rightarrow> py_error + 'p blit" where
  "FlipTile_draw t use_soft_edges =
     (if is_complete t then Inr (Blit (final_surface t) (tile_x t, tile_y t))
      else if \<not> is_animating t then
        (let surfaces = (if use_soft_edges then flip_surfaces_soft t else flip_surfaces t)
         in case py_index surfaces 0 of
              Inl e \<Rightarrow> Inl e
            | Inr s \<Rightarrow> Inr (Blit s (tile_x t, tile_y t)))
      else
        let flip_index = py_int (flip_angle t / 180);
            angle_in_flip = py_fmod (flip_angle t) 180;
            flip_index = min flip_index (int (length (flip_surfaces t)) - 2);
            scale = draw_scale (flip_angle t);
            surfaces = (if use_soft_edges then flip_surfaces_soft t else flip_surfaces t)
        in case (if angle_in_flip < 90 then py_index surfaces flip_index
                 else py_index surfaces (flip_index + 1)) of
             Inl e \<Rightarrow> Inl e
           | Inr base_surface \<Rightarrow>
               (if flip_direction t = Horizontal then
                  let new_width = max 1 (py_int (real_of_int (tile_size t) * scale));
                      offset_x = (tile_size t - new_width) div 2
                  in Inr (BlitScaled base_surface (new_width, tile_size t)
                            (tile_x t + offset_x, tile_y t))
                else
                  let new_height = max 1 (py_int (real_of_int (tile_size t) * scale));
                      offset_y = (tile_size t - new_height) div 2
                  in Inr (BlitScaled base_surface (tile_size t, new_height)
                            (tile_x t, tile_y t + offset_y))))"

section \<open>pygame surfaces\<close>

text \<open>
  The surface operations the effects use. \<open>get_at\<close> raises outside the surface,
  \<open>set_at\<close> has no effect there; \<open>pygame.Surface((w, h))\<close> refuses a negative size;
  a blit copies the pixels of the source area that exist and land inside the destination.
\<close>

type_synonym color = "nat \<times> nat \<times> nat"

datatype pygame_error = InvalidResolution

definition get_width :: "'p surface \<Rightarrow> int" where
  "get_width s = (case s of [] \<Rightarrow> 0 | row # _ \<Rightarrow> int (length row))"

definition get_height :: "'p surface \<Rightarrow> int" where
  "get_height s = int (length s)"

definition get_at :: "'p surface \<Rightarrow> int \<times> int \<Rightarrow> py_error + 'p" where
  "get_at s p =
     (case p of (x, y) \<Rightarrow>
        if 0 \<le> y \<and> y < int (length s) \<and> 0 \<le> x \<and> x < int (length (s ! nat y))
        then Inr (s ! nat y ! nat x) else Inl IndexError)"

definition set_at :: "'p surface \<Rightarrow> int \<times> int \<Rightarrow> 'p \<Rightarrow> 'p surface" where
  "set_at s p c =
     (case p of (x, y) \<Rightarrow>
        if 0 \<le> y \<and> y < int (length s) \<and> 0 \<le> x \<and> x < int (length (s ! nat y))
        then s[nat y := (s ! nat y)[nat x := c]] else s)"

definition new_surface :: "int \<Rightarrow> int \<Rightarrow> pygame_error + color surface" where
  "new_surface w h =
     (if w < 0 \<or> h < 0 then Inl InvalidResolution
      else Inr (replicate (nat h) (replicate (nat w) (0, 0, 0))))"

definition blit_area ::
  "'p surface \<Rightarrow> 'p surface \<Rightarrow> int \<times> int \<Rightarrow> int \<times> int \<times> int \<times> int \<Rightarrow> 'p surface" where
  "blit_area dest src pos area =
     (case pos of (px, py) \<Rightarrow> case area of (ax, ay, aw, ah) \<Rightarrow>
        map (\<lambda>(y, row).
          map (\<lambda>(x, d).
                 let i = int x - px; j = int y - py
                 in if 0 \<le> i \<and> i < aw \<and> 0 \<le> j \<and> j < ah
                    then (case get_at src (ax + i, ay + j) of Inr c \<Rightarrow> c | Inl _ \<Rightarrow> d)
                    else d)
              (zip [0..<length row] row))
          (zip [0..<length dest] dest))"

definition blit :: "'p surface \<Rightarrow> 'p surface \<Rightarrow> int \<times> int \<Rightarrow> 'p surface" where
  "blit dest src pos = blit_area dest src pos (0, 0, get_width src, get_height src)"

text \<open>A surface of width \<open>fst shape\<close> and height \<open>snd shape\<close>.\<close>

definition has_shape :: "int \<times> int \<Rightarrow> 'p surface \<Rightarrow> bool" where
  "has_shape shape s \<longleftrightarrow>
     get_height s = snd shape \<and> (\<forall>row \<in> set s. int (length row) = fst shape)"

section \<open>Eye Gaze Shifter (effects/eyes.py)\<close>

text \<open>
  One entry of \<open>self.eyes\<close>, as the three ways of building it leave it: the box, its centre,
  the padded rectangle and the pixels captured under it.
\<close>

record eye_info =
  eye_x :: int
  eye_y :: int
  eye_w :: int
  eye_h :: int
  center_x :: int
  center_y :: int
  padded_rect :: "int \<times> int \<times> int \<times> int"
  original_pixels :: "color surface option"
  current_shift_x :: int
  current_shift_y :: int

record eye_effect =
  e_screen_width :: int
  e_screen_height :: int
  e_original :: "color surface"
  e_current_surface :: "color surface"
  e_time :: real
  e_is_complete :: bool
  eyes :: "eye_info list"
  look_speed :: real
  max_shift :: real
  e_animation_duration :: real

text \<open>
  \<open>EyeEffect.__init__\<close>, with the list of eyes that \<open>_use_polygon_data\<close>,
  \<open>_use_manual_eyes\<close> or \<open>_detect_eyes\<close> has filled in.
\<close>

definition EyeEffect_init :: "color surface \<Rightarrow> int \<Rightarrow> int \<Rightarrow> eye_info list \<Rightarrow> eye_effect" where
  "EyeEffect_init img w h es =
     \<lparr>e_screen_width = w, e_screen_height = h, e_original = img,
      e_current_surface = img, e_time = 0, e_is_complete = False, eyes = es,
      look_speed = 0.5, max_shift = 8, e_animation_duration = 10.0\<rparr>"

text \<open>The gaze offset of \<open>update\<close> at time \<open>t\<close> (lines 298 to 301).\<close>

definition look_x :: "real \<Rightarrow> real \<Rightarrow> real \<Rightarrow> real" where
  "look_x t speed shift = sin (t * speed * 2) * shift + sin (t * 3.7) * 2"

definition look_y :: "real \<Rightarrow> real \<Rightarrow> real \<Rightarrow> real" where
  "look_y t speed shift = sin (t * speed * 1.5 + 1) * shift * 0.5 + sin (t * 2.3) * 1"

text \<open>One iteration of the pixel loop of \<open>_shift_eye_pixels\<close>, at pupil pixel \<open>(x, y)\<close>.\<close>

definition mix :: "nat \<Rightarrow> nat \<Rightarrow> real \<Rightarrow> nat" where
  "mix shifted orig blend = nat (py_int (real shifted * blend + real orig * (1 - blend)))"

definition blend_pixel ::
  "color surface \<Rightarrow> int \<Rightarrow> int \<Rightarrow> int \<Rightarrow> int \<Rightarrow> color surface \<Rightarrow> int \<times> int \<Rightarrow> color surface" where
  "blend_pixel pupil_surface pupil_x pupil_y pupil_w pupil_h result p =
     (case p of (x, y) \<Rightarrow>
      let cx = pupil_w div 2;
          cy = pupil_h div 2;
          blend_start = 0.7;
          dx = (if pupil_w > 0 then real_of_int (x - cx) / (real_of_int pupil_w / 2) else 0);
          dy = (if pupil_h > 0 then real_of_int (y - cy) / (real_of_int pupil_h / 2) else 0);
          dist = sqrt (dx * dx + dy * dy)
      in if dist \<ge> 1.0 then result
         else
           let dest = (pupil_x + x, pupil_y + y)
           in case get_at pupil_surface (x, y) of
                Inl _ \<Rightarrow> result
              | Inr (sr, sg, sb) \<Rightarrow>
                  if dist < blend_start then set_at result dest (sr, sg, sb)
                  else
                    let blend = 1.0 - ((dist - blend_start) / (1.0 - blend_start));
                        blend = max 0.0 (min 1.0 blend)
                    in case get_at result dest of
                         Inl _ \<Rightarrow> result
                       | Inr (r0, g0, b0) \<Rightarrow>
                           set_at result dest
                             (mix sr r0 blend, mix sg g0 blend, mix sb b0 blend))"

text \<open>
  \<open>_shift_eye_pixels\<close>: the new \<open>current_surface\<close>, or the pygame error of a surface of
  negative size. \<open>int(w * 0.7)\<close> is taken over the reals.
\<close>

definition shift_eye_pixels ::
  "color surface \<Rightarrow> eye_info \<Rightarrow> real \<Rightarrow> real \<Rightarrow> pygame_error + color surface" where
  "shift_eye_pixels current eye shift_x shift_y =
     (case original_pixels eye of
        None \<Rightarrow> Inr current
      | Some orig \<Rightarrow>
          (case padded_rect eye of (px, py, pw, ph) \<Rightarrow>
           let inner_x = eye_x eye - px;
               inner_y = eye_y eye - py;
               inner_w = eye_w eye;
               inner_h = eye_h eye;
               pupil_scale = 0.7;
               pupil_w = py_int (real_of_int inner_w * pupil_scale);
               pupil_h = py_int (real_of_int inner_h * pupil_scale);
               pupil_x = inner_x + (inner_w - pupil_w) div 2;
               pupil_y = inner_y + (inner_h - pupil_h) div 2;
               src_x = pupil_x - py_int shift_x;
               src_y = pupil_y - py_int shift_y;
               src_x = max 0 (min (pw - pupil_w) src_x);
               src_y = max 0 (min (ph - pupil_h) src_y)
           in case new_surface pw ph of
                Inl e \<Rightarrow> Inl e
              | Inr blank \<Rightarrow>
                  let result = blit blank orig (0, 0)
                  in case new_surface pupil_w pupil_h of
                       Inl e \<Rightarrow> Inl e
                     | Inr pupil_blank \<Rightarrow>
                         let pupil_surface =
                               blit_area pupil_blank orig (0, 0) (src_x, src_y, pupil_w, pupil_h);
                             result =
                               foldl (blend_pixel pupil_surface pupil_x pupil_y pupil_w pupil_h)
                                 result
                                 (concat (map (\<lambda>y. map (\<lambda>x. (x, y)) [0..pupil_w - 1])
                                            [0..pupil_h - 1]))
                         in Inr (blit current result (px, py))))"

text \<open>The loop \<open>for eye in self.eyes\<close>: the first error ends it.\<close>

fun shift_all ::
  "color surface \<Rightarrow> eye_info list \<Rightarrow> real \<Rightarrow> real \<Rightarrow> pygame_error + color surface" where
  "shift_all current [] lx ly = Inr current"
| "shift_all current (eye # es) lx ly =
     (case shift_eye_pixels current eye lx ly of
        Inl e \<Rightarrow> Inl e
      | Inr current' \<Rightarrow> shift_all current' es lx ly)"

definition EyeEffect_update :: "eye_effect \<Rightarrow> pygame_error + eye_effect" where
  "EyeEffect_update s =
     (if e_is_complete s \<or> length (eyes s) = 0 then Inr s
      else
        let s = s\<lparr>e_time := e_time s + 1 / FPS\<rparr>
        in if e_time s \<ge> e_animation_duration s
           then Inr (s\<lparr>e_is_complete := True, e_current_surface := e_original s\<rparr>)
           else
             let s = s\<lparr>e_current_surface := e_original s\<rparr>;
                 lx = look_x (e_time s) (look_speed s) (max_shift s);
                 ly = look_y (e_time s) (look_speed s) (max_shift s)
             in case shift_all (e_current_surface s) (eyes s) lx ly of
                  Inl e \<Rightarrow> Inl e
                | Inr current \<Rightarrow> Inr (s\<lparr>e_current_surface := current\<rparr>))"

definition EyeEffect_draw :: "eye_effect \<Rightarrow> color surface \<Rightarrow> color surface" where
  "EyeEffect_draw s screen = blit screen (e_current_surface s) (0, 0)"

definition EyeEffect_restart :: "eye_effect \<Rightarrow> eye_effect" where
  "EyeEffect_restart s = s\<lparr>e_time := 0, e_is_complete := False\<rparr>"

text \<open>\<open>n\<close> calls of \<open>update\<close> in a row; an error ends the run.\<close>

fun EyeEffect_updates :: "nat \<Rightarrow> eye_effect \<Rightarrow> pygame_error + eye_effect" where
  "EyeEffect_updates 0 s = Inr s"
| "EyeEffect_updates (Suc n) s =
     (case EyeEffect_update s of Inl e \<Rightarrow> Inl e | Inr s' \<Rightarrow> EyeEffect_updates n s')"

section \<open>Region Synthesizer (effects/hidden.py)\<close>

subsection \<open>numpy arrays and the OpenCV calls\<close>

text \<open>
  A numpy array of the frame's shape is its value function: \<open>a (x, y)\<close> is \<open>a[y, x]\<close>.
  Every write of the source is inside the frame, so the values outside never change.
  Images are BGR triples, masks hold 0 or 255.
\<close>

type_synonym 'a array2 = "int \<times> int \<Rightarrow> 'a"

definition in_frame :: "int \<times> int \<Rightarrow> int \<times> int \<Rightarrow> bool" where
  "in_frame shape p =
     (case shape of (w, h) \<Rightarrow> case p of (x, y) \<Rightarrow> 0 \<le> x \<and> x < w \<and> 0 \<le> y \<and> y < h)"

definition zeros :: "nat array2" where
  "zeros = (\<lambda>p. 0)"

text \<open>The frame's pixels in row-major order, as \<open>np.where\<close> and boolean indexing list them.\<close>

definition frame_pixels :: "int \<times> int \<Rightarrow> (int \<times> int) list" where
  "frame_pixels shape =
     (case shape of (w, h) \<Rightarrow> concat (map (\<lambda>y. map (\<lambda>x. (x, y)) [0..w - 1]) [0..h - 1]))"

text \<open>
  What the library computes is not part of the repository: the rasterisation of a polygon
  (\<open>raster pts p\<close>: pixel \<open>p\<close> is covered by \<open>cv2.fillPoly\<close> of \<open>pts\<close>), the two
  interpolations of \<open>cv2.resize\<close> (source array, its shape, the requested shape), the Telea
  inpainting with radius 8, the bilateral filter \<open>(5, 40, 40)\<close>, the Gaussian blur
  \<open>(15, 15)\<close>, and the stream of \<open>np.random.normal(0, 3, 3)\<close> draws.
\<close>

record opencv =
  raster :: "(int \<times> int) list \<Rightarrow> int \<times> int \<Rightarrow> bool"
  resize_linear :: "color array2 \<Rightarrow> int \<times> int \<Rightarrow> int \<times> int \<Rightarrow> color array2"
  resize_nearest :: "nat array2 \<Rightarrow> int \<times> int \<Rightarrow> int \<times> int \<Rightarrow> nat array2"
  inpaint :: "int \<times> int \<Rightarrow> color array2 \<Rightarrow> nat array2 \<Rightarrow> color array2"
  bilateralFilter :: "int \<times> int \<Rightarrow> color array2 \<Rightarrow> color array2"
  GaussianBlur :: "int \<times> int \<Rightarrow> real array2 \<Rightarrow> real array2"
  normal :: "nat \<Rightarrow> real \<times> real \<times> real"

datatype hidden_error = ReshapeError | ResizeEmpty

definition fillPoly ::
  "opencv \<Rightarrow> int \<times> int \<Rightarrow> nat array2 \<Rightarrow> (int \<times> int) list \<Rightarrow> nat \<Rightarrow> nat array2" where
  "fillPoly cv shape m pts v = (\<lambda>p. if in_frame shape p \<and> raster cv pts p then v else m p)"

text \<open>\<open>cv2.rectangle\<close> with thickness \<open>-1\<close>: filled, both corners included.\<close>

definition rectangle ::
  "int \<times> int \<Rightarrow> nat array2 \<Rightarrow> int \<times> int \<Rightarrow> int \<times> int \<Rightarrow> nat \<Rightarrow> nat array2" where
  "rectangle shape m pt1 pt2 v =
     (\<lambda>p. if in_frame shape p \<and>
              min (fst pt1) (fst pt2) \<le> fst p \<and> fst p \<le> max (fst pt1) (fst pt2) \<and>
              min (snd pt1) (snd pt2) \<le> snd p \<and> snd p \<le> max (snd pt1) (snd pt2)
           then v else m p)"

text \<open>
  \<open>cv2.dilate\<close> with a \<open>k \<times> k\<close> kernel of ones anchored at its centre \<open>k // 2\<close>:
  the maximum over the window, pixels outside the frame not counting.
\<close>

definition dilate1 :: "int \<times> int \<Rightarrow> int \<Rightarrow> nat array2 \<Rightarrow> nat array2" where
  "dilate1 shape k m =
     (\<lambda>p. if in_frame shape p
           then foldl max 0
                  (map m (filter (in_frame shape)
                     (concat (map (\<lambda>j. map (\<lambda>i. (fst p + i, snd p + j))
                                          [- (k div 2)..k - 1 - k div 2])
                                  [- (k div 2)..k - 1 - k div 2]))))
           else m p)"

definition dilate :: "int \<times> int \<Rightarrow> int \<Rightarrow> nat \<Rightarrow> nat array2 \<Rightarrow> nat array2" where
  "dilate shape k iterations m = (dilate1 shape k ^^ iterations) m"

text \<open>\<open>cv2.subtract\<close> on \<open>uint8\<close> saturates at 0.\<close>

definition subtract :: "nat array2 \<Rightarrow> nat array2 \<Rightarrow> nat array2" where
  "subtract a b = (\<lambda>p. a p - b p)"

text \<open>
  A slice \<open>a[start:stop]\<close> along an axis of length \<open>n\<close>: where it begins and how long it
  is (a negative bound counts from the end, both are clipped).
\<close>

definition py_slice :: "int \<Rightarrow> int \<Rightarrow> int \<Rightarrow> int \<times> int" where
  "py_slice n start stop =
     (let norm = (\<lambda>i. if i < 0 then max 0 (i + n) else min i n);
          b = norm start; e = norm stop
      in (b, max 0 (e - b)))"

text \<open>\<open>a[y:y+h, x:x+w]\<close>: the cropped array and its shape \<open>(width, height)\<close>.\<close>

definition crop :: "int \<times> int \<Rightarrow> 'a array2 \<Rightarrow> int \<Rightarrow> int \<Rightarrow> int \<Rightarrow> int \<Rightarrow> 'a array2 \<times> (int \<times> int)" where
  "crop shape a x y w h =
     (case shape of (fw, fh) \<Rightarrow>
      let (bx, lx) = py_slice fw x (x + w);
          (by, ly) = py_slice fh y (y + h)
      in (\<lambda>p. a (fst p + bx, snd p + by), (lx, ly)))"

text \<open>\<open>cv2.resize\<close> refuses an empty source.\<close>

definition resize ::
  "('a array2 \<Rightarrow> int \<times> int \<Rightarrow> int \<times> int \<Rightarrow> 'a array2) \<Rightarrow> 'a array2 \<times> (int \<times> int)
     \<Rightarrow> int \<times> int \<Rightarrow> hidden_error + 'a array2" where
  "resize interpolation src dsize =
     (case src of (a, (w, h)) \<Rightarrow>
        if w \<le> 0 \<or> h \<le> 0 then Inl ResizeEmpty else Inr (interpolation a (w, h) dsize))"

text \<open>
  \<open>cv2.cvtColor\<close> between RGB and BGR swaps the outer channels; \<open>astype(np.uint8)\<close>
  truncates a float, which is within 0 and 255 wherever the source converts one.
\<close>

definition cvtColor :: "color array2 \<Rightarrow> color array2" where
  "cvtColor a = (\<lambda>p. case a p of (c0, c1, c2) \<Rightarrow> (c2, c1, c0))"

definition astype_uint8 :: "real \<Rightarrow> nat" where
  "astype_uint8 v = nat (py_int v) mod 256"

subsection \<open>The effect\<close>

text \<open>One record of \<open>polygon_data\<close> (a dict; the optional keys are options) and one of \<open>self.regions\<close>.\<close>

record region_data =
  d_polygon :: "(int \<times> int) list option"
  d_source_polygon :: "(int \<times> int) list option"
  d_x :: int
  d_y :: int
  d_w :: int
  d_h :: int
  d_source_x :: "int option"
  d_source_y :: "int option"
  d_source_w :: "int option"
  d_source_h :: "int option"

record region =
  polygon :: "(int \<times> int) list"
  source_polygon :: "(int \<times> int) list option"
  r_x :: int
  r_y :: int
  r_w :: int
  r_h :: int
  source_x :: int
  source_y :: int
  source_w :: int
  source_h :: int

record hidden_effect =
  h_screen_width :: int
  h_screen_height :: int
  h_original :: "color surface"
  h_current_surface :: "color surface"
  hidden_surface :: "color surface option"
  h_time :: real
  h_is_complete :: bool
  regions :: "region list"
  reveal_duration :: real
  hold_duration :: real
  h_animation_duration :: real

definition process_region :: "region_data \<Rightarrow> region" where
  "process_region d =
     \<lparr>polygon = (case d_polygon d of None \<Rightarrow> [] | Some p \<Rightarrow> p),
      source_polygon = d_source_polygon d,
      r_x = d_x d, r_y = d_y d, r_w = d_w d, r_h = d_h d,
      source_x = (case d_source_x d of None \<Rightarrow> 0 | Some v \<Rightarrow> v),
      source_y = (case d_source_y d of None \<Rightarrow> 0 | Some v \<Rightarrow> v),
      source_w = (case d_source_w d of None \<Rightarrow> 0 | Some v \<Rightarrow> v),
      source_h = (case d_source_h d of None \<Rightarrow> 0 | Some v \<Rightarrow> v)\<rparr>"

definition process_regions :: "hidden_effect \<Rightarrow> region_data list \<Rightarrow> hidden_effect" where
  "process_regions s polygon_data = s\<lparr>regions := regions s @ map process_region polygon_data\<rparr>"

text \<open>The first loop of \<open>_apply_inpainting\<close>: one region added to the composite mask.\<close>

definition mask_region :: "opencv \<Rightarrow> int \<times> int \<Rightarrow> nat array2 \<Rightarrow> region \<Rightarrow> nat array2" where
  "mask_region cv shape msk r =
     (if length (polygon r) \<ge> 3 then fillPoly cv shape msk (polygon r) 255
      else rectangle shape msk (r_x r, r_y r) (r_x r + r_w r, r_y r + r_h r) 255)"

definition composite_mask :: "opencv \<Rightarrow> int \<times> int \<Rightarrow> region list \<Rightarrow> nat array2" where
  "composite_mask cv shape rs = foldl (mask_region cv shape) zeros rs"

text \<open>Clone mode: the body of the two nested loops over \<open>dy\<close> and \<open>dx\<close>.\<close>

definition clone_pixel ::
  "int \<times> int \<Rightarrow> region \<Rightarrow> nat array2 \<Rightarrow> nat array2 \<Rightarrow> color array2 \<Rightarrow> color array2
     \<Rightarrow> int \<times> int \<Rightarrow> color array2" where
  "clone_pixel shape r region_mask source_mask_resized source_resized result d =
     (case d of (dx, dy) \<Rightarrow>
      let ty = r_y r + dy; tx = r_x r + dx
      in if 0 \<le> ty \<and> ty < snd shape \<and> 0 \<le> tx \<and> tx < fst shape
         then (if region_mask (tx, ty) > 0 \<and> source_mask_resized (dx, dy) > 0
               then result((tx, ty) := source_resized (dx, dy)) else result)
         else result)"

definition clone_region ::
  "opencv \<Rightarrow> int \<times> int \<Rightarrow> color array2 \<Rightarrow> region \<Rightarrow> (int \<times> int) list \<Rightarrow> nat array2
     \<Rightarrow> color array2 \<Rightarrow> hidden_error + color array2" where
  "clone_region cv shape original_image r src_poly region_mask result =
     (if source_w r > 0 \<and> source_h r > 0 \<and> r_w r > 0 \<and> r_h r > 0 then
        (case resize (resize_linear cv)
                (crop shape original_image (source_x r) (source_y r) (source_w r) (source_h r))
                (r_w r, r_h r) of
           Inl e \<Rightarrow> Inl e
         | Inr source_resized \<Rightarrow>
             let source_mask_full = fillPoly cv shape zeros src_poly 255
             in case resize (resize_nearest cv)
                     (crop shape source_mask_full
                        (source_x r) (source_y r) (source_w r) (source_h r))
                     (r_w r, r_h r) of
                  Inl e \<Rightarrow> Inl e
                | Inr source_mask_resized \<Rightarrow>
                    Inr (foldl (clone_pixel shape r region_mask source_mask_resized
                                  source_resized)
                           result
                           (concat (map (\<lambda>dy. map (\<lambda>dx. (dx, dy)) [0..r_w r - 1])
                                      [0..r_h r - 1]))))
      else Inr result)"

text \<open>
  Standard mode: the flat pre-fill with the mean colour of the band around the hole.
  \<open>k\<close> counts the random draws taken so far.
\<close>

definition mean_color :: "color list \<Rightarrow> real \<times> real \<times> real" where
  "mean_color cs =
     (sum_list (map (\<lambda>c. real (fst c)) cs) / real (length cs),
      sum_list (map (\<lambda>c. real (fst (snd c))) cs) / real (length cs),
      sum_list (map (\<lambda>c. real (snd (snd c))) cs) / real (length cs))"

definition clip_uint8 :: "real \<Rightarrow> nat" where
  "clip_uint8 v = astype_uint8 (max 0 (min 255 v))"

definition fill_pixel ::
  "opencv \<Rightarrow> real \<times> real \<times> real \<Rightarrow> nat \<Rightarrow> color array2 \<Rightarrow> nat \<times> (int \<times> int) \<Rightarrow> color array2" where
  "fill_pixel cv mean k result ip =
     (case ip of (i, p) \<Rightarrow>
      case mean of (m0, m1, m2) \<Rightarrow>
      case normal cv (k + i) of (v0, v1, v2) \<Rightarrow>
        result(p := (clip_uint8 (m0 + v0), clip_uint8 (m1 + v1), clip_uint8 (m2 + v2))))"

definition fill_region ::
  "opencv \<Rightarrow> int \<times> int \<Rightarrow> color array2 \<Rightarrow> nat array2 \<Rightarrow> color array2 \<times> nat
     \<Rightarrow> color array2 \<times> nat" where
  "fill_region cv shape original_image region_mask st =
     (case st of (result, k) \<Rightarrow>
      let mask_dilated = dilate shape 20 2 region_mask;
          sample_band = subtract mask_dilated region_mask
      in if sum_list (map sample_band (frame_pixels shape)) > 0 then
           (let surrounding_pixels =
                  map original_image (filter (\<lambda>p. sample_band p > 0) (frame_pixels shape))
            in if length surrounding_pixels > 0 then
                 (let mean = mean_color surrounding_pixels;
                      region_coords = filter (\<lambda>p. region_mask p > 0) (frame_pixels shape)
                  in (foldl (fill_pixel cv mean k) result
                        (zip [0..<length region_coords] region_coords),
                      k + length region_coords))
               else (result, k))
         else (result, k))"

text \<open>The body of the second loop, for one region.\<close>

definition synth_region ::
  "opencv \<Rightarrow> int \<times> int \<Rightarrow> color array2 \<Rightarrow> color array2 \<times> nat \<Rightarrow> region
     \<Rightarrow> hidden_error + color array2 \<times> nat" where
  "synth_region cv shape original_image st r =
     (if length (polygon r) < 3 then Inr st
      else
        let region_mask = fillPoly cv shape zeros (polygon r) 255
        in case (case source_polygon r of
                   None \<Rightarrow> None
                 | Some sp \<Rightarrow> if length sp \<ge> 3 then Some sp else None) of
             Some sp \<Rightarrow>
               (case clone_region cv shape original_image r sp region_mask (fst st) of
                  Inl e \<Rightarrow> Inl e
                | Inr result \<Rightarrow> Inr (result, snd st))
           | None \<Rightarrow> Inr (fill_region cv shape original_image region_mask st))"

fun synth_regions ::
  "opencv \<Rightarrow> int \<times> int \<Rightarrow> color array2 \<Rightarrow> color array2 \<times> nat \<Rightarrow> region list
     \<Rightarrow> hidden_error + color array2 \<times> nat" where
  "synth_regions cv shape original_image st [] = Inr st"
| "synth_regions cv shape original_image st (r # rs) =
     (case synth_region cv shape original_image st r of
        Inl e \<Rightarrow> Inl e
      | Inr st' \<Rightarrow> synth_regions cv shape original_image st' rs)"

text \<open>The mask handed to \<open>cv2.inpaint\<close> (lines 144 and 145).\<close>

definition mask_inpaint :: "int \<times> int \<Rightarrow> nat array2 \<Rightarrow> nat array2" where
  "mask_inpaint shape msk = dilate shape 3 1 msk"

text \<open>Inpainting, smoothing and the feathered blend onto the original (lines 143 to 152).\<close>

definition finish ::
  "opencv \<Rightarrow> int \<times> int \<Rightarrow> color array2 \<Rightarrow> nat array2 \<Rightarrow> color array2 \<Rightarrow> color array2" where
  "finish cv shape original_image msk result =
     (let result = inpaint cv shape result (mask_inpaint shape msk);
          result_smooth = bilateralFilter cv shape result;
          mask_feather = (\<lambda>p. GaussianBlur cv shape (\<lambda>q. real (msk q)) p / 255.0)
      in (\<lambda>p. case result_smooth p of (s0, s1, s2) \<Rightarrow>
               case original_image p of (o0, o1, o2) \<Rightarrow>
                 (astype_uint8 (real s0 * mask_feather p + real o0 * (1 - mask_feather p)),
                  astype_uint8 (real s1 * mask_feather p + real o1 * (1 - mask_feather p)),
                  astype_uint8 (real s2 * mask_feather p + real o2 * (1 - mask_feather p)))))"

text \<open>
  The conversions between the pygame surface and the array. \<open>pygame.image.tostring\<close> lists
  the pixels row by row and \<open>reshape((h, w, 3))\<close> cuts the list into \<open>h\<close> rows of \<open>w\<close>
  pixels; it raises when the list does not have \<open>h * w\<close> pixels (the sizes of a screen are
  not negative). \<open>frombuffer\<close> builds the surface of that size back.
\<close>

definition to_array :: "color surface \<Rightarrow> int \<times> int \<Rightarrow> hidden_error + color array2" where
  "to_array img shape =
     (case shape of (w, h) \<Rightarrow>
        let buffer = concat img
        in if 0 \<le> w \<and> 0 \<le> h \<and> int (length buffer) = h * w
           then Inr (\<lambda>p. if in_frame shape p then buffer ! nat (snd p * w + fst p)
                          else (0, 0, 0))
           else Inl ReshapeError)"

definition frombuffer :: "color array2 \<Rightarrow> int \<times> int \<Rightarrow> color surface" where
  "frombuffer a shape = map (\<lambda>y. map (\<lambda>x. a (x, y)) [0..fst shape - 1]) [0..snd shape - 1]"

text \<open>
  Whether \<open>import cv2\<close> succeeds, at once or after the attempted installation.
\<close>

record capability =
  has_cv2 :: bool
  install_works :: bool

definition synthesize ::
  "opencv \<Rightarrow> int \<times> int \<Rightarrow> color surface \<Rightarrow> region list \<Rightarrow> hidden_error + color surface" where
  "synthesize cv shape img rs =
     (case to_array img shape of
        Inl e \<Rightarrow> Inl e
      | Inr img_array \<Rightarrow>
          let cv_image = cvtColor img_array;
              original_image = cv_image;
              result = cv_image;
              msk = composite_mask cv shape rs
          in case synth_regions cv shape original_image (result, 0) rs of
               Inl e \<Rightarrow> Inl e
             | Inr (result, k) \<Rightarrow>
                 Inr (frombuffer (cvtColor (finish cv shape original_image msk result)) shape))"

definition apply_inpainting ::
  "capability \<Rightarrow> opencv \<Rightarrow> hidden_effect \<Rightarrow> hidden_error + hidden_effect" where
  "apply_inpainting cap cv s =
     (if \<not> has_cv2 cap \<and> \<not> install_works cap
      then Inr (s\<lparr>hidden_surface := Some (h_original s)\<rparr>)
      else case synthesize cv (h_screen_width s, h_screen_height s) (h_original s) (regions s) of
             Inl e \<Rightarrow> Inl e
           | Inr hid \<Rightarrow> Inr (s\<lparr>hidden_surface := Some hid\<rparr>))"

text \<open>\<open>HiddenEffect.__init__\<close>; \<open>polygon_data\<close> is \<open>None\<close> or a list.\<close>

definition HiddenEffect_init ::
  "capability \<Rightarrow> opencv \<Rightarrow> color surface \<Rightarrow> int \<Rightarrow> int \<Rightarrow> region_data list option
     \<Rightarrow> hidden_error + hidden_effect" where
  "HiddenEffect_init cap cv img w h polygon_data =
     (let s = \<lparr>h_screen_width = w, h_screen_height = h, h_original = img,
               h_current_surface = img, hidden_surface = None, h_time = 0,
               h_is_complete = False, regions = [],
               reveal_duration = 2.0, hold_duration = 8.0,
               h_animation_duration = 2.0 + 8.0\<rparr>
      in case polygon_data of
           None \<Rightarrow> Inr s
         | Some [] \<Rightarrow> Inr s
         | Some (d # ds) \<Rightarrow> apply_inpainting cap cv (process_regions s (d # ds)))"

text \<open>
  \<open>HiddenEffect.update\<close>. \<open>alpha_blit a dest src\<close> is pygame's blit of \<open>src\<close> onto \<open>dest\<close>
  at \<open>(0, 0)\<close> with surface alpha \<open>a\<close>.
\<close>

definition HiddenEffect_update ::
  "(int \<Rightarrow> color surface \<Rightarrow> color surface \<Rightarrow> color surface) \<Rightarrow> hidden_effect \<Rightarrow> hidden_effect" where
  "HiddenEffect_update alpha_blit s =
     (case hidden_surface s of
        None \<Rightarrow> s
      | Some hid \<Rightarrow>
          if h_is_complete s then s
          else
            let s = s\<lparr>h_time := h_time s + 1 / FPS\<rparr>
            in if h_time s \<ge> h_animation_duration s
               then s\<lparr>h_is_complete := True, h_current_surface := hid\<rparr>
               else if h_time s < reveal_duration s then
                 (let progress = h_time s / reveal_duration s;
                      progress = progress * progress * (3 - 2 * progress)
                  in s\<lparr>h_current_surface :=
                         alpha_blit (py_int (255 * progress)) (h_original s) hid\<rparr>)
               else s\<lparr>h_current_surface := hid\<rparr>)"

definition HiddenEffect_draw :: "hidden_effect \<Rightarrow> color surface \<Rightarrow> color surface" where
  "HiddenEffect_draw s screen = blit screen (h_current_surface s) (0, 0)"

definition HiddenEffect_restart :: "hidden_effect \<Rightarrow> hidden_effect" where
  "HiddenEffect_restart s =
     s\<lparr>h_time := 0, h_is_complete := False, h_current_surface := h_original s\<rparr>"

section \<open>The composite mask as the specification words it\<close>

text \<open>
  The specification's composite mask: the union over all regions of the polygon's interior
  when the polygon has at least 3 points, and otherwise of the rectangle spanned by
  \<open>(x, y)\<close> and \<open>(x + w, y + h)\<close>, corners included; the union is clipped to the frame.
\<close>

definition spec_region :: "opencv \<Rightarrow> region \<Rightarrow> int \<times> int \<Rightarrow> bool" where
  "spec_region cv r p =
     (if length (polygon r) \<ge> 3 then raster cv (polygon r) p
      else min (r_x r) (r_x r + r_w r) \<le> fst p \<and> fst p \<le> max (r_x r) (r_x r + r_w r) \<and>
           min (r_y r) (r_y r + r_h r) \<le> snd p \<and> snd p \<le> max (r_y r) (r_y r + r_h r))"

definition spec_composite_mask :: "opencv \<Rightarrow> int \<times> int \<Rightarrow> region list \<Rightarrow> nat array2" where
  "spec_composite_mask cv shape rs =
     (\<lambda>p. if in_frame shape p \<and> list_ex (\<lambda>r. spec_region cv r p) rs then 255 else 0)"

section \<open>The contract of the inpainting call\<close>

text \<open>
  The library documents the mask of \<open>cv2.inpaint\<close> as the area to be inpainted: the pixels
  where it is not 0 are computed anew from the others. So two images that agree wherever
  the mask is 0 have the same inpainting.
\<close>

definition inpaint_fills_mask :: "opencv \<Rightarrow> int \<times> int \<Rightarrow> bool" where
  "inpaint_fills_mask cv shape \<longleftrightarrow>
     (\<forall>a b m. (\<forall>p. m p = 0 \<longrightarrow> a p = b p) \<longrightarrow> inpaint cv shape a m = inpaint cv shape b m)"

section \<open>Invariant of a tile\<close>

text \<open>
  What \<open>__init__\<close> establishes and \<open>update\<close> keeps: the angle is between 0 and the total,
  equal to it exactly when the tile is complete, and the speed is positive.
\<close>

definition tile_inv :: "'p flip_tile \<Rightarrow> bool" where
  "tile_inv t \<longleftrightarrow>
     0 \<le> flip_angle t \<and> 0 < flip_speed t \<and>
     (if is_complete t then flip_angle t = total_rotation t
      else flip_angle t < total_rotation t)"


section \<open>Concrete inputs\<close>

text \<open>A tile's random draws, and a 2 by 2 bitmap with four different pixels.\<close>

definition draws0 :: tile_draws where
  "draws0 = \<lparr>draw_flips = 1, draw_direction = Horizontal, draw_jitter = 0,
              draw_mirror_x = True, draw_mirror_y = False\<rparr>"

definition bitmap0 :: "nat surface" where
  "bitmap0 = [[1, 2], [3, 4]]"

text \<open>A 2 by 2 image, an eye on its top-left pixel, and the effect about to time out.\<close>

definition image0 :: "color surface" where
  "image0 = [[(1, 2, 3), (4, 5, 6)], [(7, 8, 9), (10, 11, 12)]]"

definition eye0 :: eye_info where
  "eye0 = \<lparr>eye_x = 0, eye_y = 0, eye_w = 1, eye_h = 1, center_x = 0, center_y = 0,
           padded_rect = (0, 0, 2, 2), original_pixels = Some image0,
           current_shift_x = 0, current_shift_y = 0\<rparr>"

definition effect0 :: eye_effect where
  "effect0 = (EyeEffect_init image0 2 2 [eye0])\<lparr>e_time := 599 / 60\<rparr>"

text \<open>
  A small library for the examples: a polygon covers its vertices only, resizing and
  filtering return their argument, inpainting blackens the masked pixels. Nothing is said
  about OpenCV through it. Then the case without OpenCV, the case where the import fails
  and the installation repairs it, an effect before synthesis, and regions given by two
  points, by a triangle, and by a triangle with a source triangle.
\<close>

definition cv0 :: opencv where
  "cv0 = \<lparr>raster = (\<lambda>pts p. p \<in> set pts),
          resize_linear = (\<lambda>a src_shape dsize. a),
          resize_nearest = (\<lambda>a src_shape dsize. a),
          inpaint = (\<lambda>shape a m p. if m p > 0 then (0, 0, 0) else a p),
          bilateralFilter = (\<lambda>shape a. a),
          GaussianBlur = (\<lambda>shape a. a),
          normal = (\<lambda>k. (0, 0, 0))\<rparr>"

definition no_cv2 :: capability where
  "no_cv2 = \<lparr>has_cv2 = False, install_works = False\<rparr>"

definition cv2_installed :: capability where
  "cv2_installed = \<lparr>has_cv2 = False, install_works = True\<rparr>"

definition hidden0 :: hidden_effect where
  "hidden0 = \<lparr>h_screen_width = 2, h_screen_height = 2, h_original = image0,
              h_current_surface = image0, hidden_surface = None, h_time = 0,
              h_is_complete = False, regions = [],
              reveal_duration = 2, hold_duration = 8, h_animation_duration = 10\<rparr>"

definition data0 :: region_data where
  "data0 = \<lparr>d_polygon = Some [(0, 0), (1, 1)], d_source_polygon = None,
            d_x = 0, d_y = 0, d_w = 1, d_h = 1,
            d_source_x = None, d_source_y = None, d_source_w = None, d_source_h = None\<rparr>"

definition data2 :: region_data where
  "data2 = \<lparr>d_polygon = Some [(0, 0), (1, 0), (0, 1)],
            d_source_polygon = Some [(2, 2), (3, 2), (2, 3)],
            d_x = 0, d_y = 0, d_w = 1, d_h = 1,
            d_source_x = Some 2, d_source_y = Some 2,
            d_source_w = Some 1, d_source_h = Some 1\<rparr>"

definition image4 :: "color surface" where
  "image4 = [[(0, 0, 0), (1, 0, 0), (2, 0, 0), (3, 0, 0)],
             [(4, 0, 0), (5, 0, 0), (6, 0, 0), (7, 0, 0)],
             [(8, 0, 0), (9, 0, 0), (10, 0, 0), (11, 0, 0)],
             [(12, 0, 0), (13, 0, 0), (14, 0, 0), (15, 0, 0)]]"

definition data1 :: region_data where
  "data1 = \<lparr>d_polygon = Some [(2, 2), (3, 2), (2, 3)], d_source_polygon = None,
            d_x = 2, d_y = 2, d_w = 1, d_h = 1,
            d_source_x = None, d_source_y = None, d_source_w = None, d_source_h = None\<rparr>"

definition hidden4 :: hidden_effect where
  "hidden4 = \<lparr>h_screen_width = 4, h_screen_height = 4, h_original = image4,
              h_current_surface = image4, hidden_surface = None, h_time = 0,
              h_is_complete = False, regions = [process_region data2],
              reveal_duration = 2, hold_duration = 8, h_animation_duration = 10\<rparr>"

section \<open>Tile Animator: lemmas\<close>

lemma init_fields:
  "flip_angle (FlipTile_init a b x y sz dl e rv r) = 0"
  "total_rotation (FlipTile_init a b x y sz dl e rv r) = real (draw_flips r * 180)"
  "flip_speed (FlipTile_init a b x y sz dl e rv r) = FLIP_SPEED + draw_jitter r"
  "is_complete (FlipTile_init a b x y sz dl e rv r) = False"
  "is_animating (FlipTile_init a b x y sz dl e rv r) = False"
  "current_delay (FlipTile_init a b x y sz dl e rv r) = dl"
  "target_flips (FlipTile_init a b x y sz dl e rv r) = draw_flips r"
  "reverse (FlipTile_init a b x y sz dl e rv r) = rv"
  "original_surface (FlipTile_init a b x y sz dl e rv r) = a"
  by (simp_all add: FlipTile_init_def precompute_flip_states_def Let_def)

lemma tile_inv_init:
  "valid_draws r \<Longrightarrow> tile_inv (FlipTile_init a b x y sz dl e rv r)"
  by (simp add: tile_inv_def init_fields valid_draws_def FLIP_SPEED_def)

lemma update_const:
  "total_rotation (FlipTile_update t) = total_rotation t"
  "flip_speed (FlipTile_update t) = flip_speed t"
  "target_flips (FlipTile_update t) = target_flips t"
  "reverse (FlipTile_update t) = reverse t"
  by (simp_all add: FlipTile_update_def Let_def start_animation_def)


lemma update_fields:
  "flip_angle (FlipTile_update t) =
     (if is_complete t \<or> current_delay t > 0 then flip_angle t
      else if flip_angle t + flip_speed t \<ge> total_rotation t then total_rotation t
      else flip_angle t + flip_speed t)"
  "is_complete (FlipTile_update t) \<longleftrightarrow>
     is_complete t \<or> (current_delay t \<le> 0 \<and> flip_angle t + flip_speed t \<ge> total_rotation t)"
  "current_delay (FlipTile_update t) =
     (if is_complete t \<or> current_delay t \<le> 0 then current_delay t else current_delay t - 1)"
  "is_animating (FlipTile_update t) \<longleftrightarrow>
     is_animating t \<or> (\<not> is_complete t \<and> current_delay t \<le> 0)"
  by (simp_all add: FlipTile_update_def Let_def start_animation_def)

lemma tile_inv_update: "tile_inv t \<Longrightarrow> tile_inv (FlipTile_update t)"
  unfolding tile_inv_def update_fields update_const by (simp split: if_splits)

lemma tile_inv_funpow: "tile_inv t \<Longrightarrow> tile_inv ((FlipTile_update ^^ n) t)"
  by (induction n) (simp_all add: tile_inv_update)

lemma funpow_const:
  "total_rotation ((FlipTile_update ^^ n) t) = total_rotation t"
  "flip_speed ((FlipTile_update ^^ n) t) = flip_speed t"
  by (induction n) (simp_all add: update_const)

lemma funpow_flips: "target_flips ((FlipTile_update ^^ n) t) = target_flips t"
  by (induction n) (simp_all add: update_const)

lemma update_mono: "tile_inv t \<Longrightarrow> flip_angle t \<le> flip_angle (FlipTile_update t)"
  unfolding tile_inv_def update_fields by (simp split: if_splits)

lemma update_terminal:
  "is_complete t \<Longrightarrow>
   FlipTile_update t = t\<lparr>line_alpha := line_alpha (FlipTile_update t)\<rparr>"
  by (simp add: FlipTile_update_def)


lemma complete_update: "is_complete t \<Longrightarrow> is_complete (FlipTile_update t)"
  by (simp add: update_fields)

lemma complete_funpow: "is_complete t \<Longrightarrow> is_complete ((FlipTile_update ^^ n) t)"
  by (induction n) (simp_all add: complete_update)

lemma delay_phase:
  "\<not> is_complete t \<Longrightarrow> nat (current_delay t) = k \<Longrightarrow>
   current_delay ((FlipTile_update ^^ k) t) \<le> 0 \<and>
   flip_angle ((FlipTile_update ^^ k) t) = flip_angle t \<and>
   \<not> is_complete ((FlipTile_update ^^ k) t)"
proof (induction k arbitrary: t)
  case 0
  then show ?case by simp
next
  case (Suc k)
  from Suc.prems have pos: "current_delay t > 0" by linarith
  have nc: "\<not> is_complete (FlipTile_update t)"
    using Suc.prems pos by (simp add: update_fields)
  have dl: "nat (current_delay (FlipTile_update t)) = k"
    using Suc.prems pos by (simp add: update_fields)
  have fa: "flip_angle (FlipTile_update t) = flip_angle t"
    using Suc.prems pos by (simp add: update_fields)
  from Suc.IH[OF nc dl] fa show ?case
    by (simp add: funpow_swap1)
qed

lemma spin_phase:
  "\<not> is_complete t \<Longrightarrow> current_delay t \<le> 0 \<Longrightarrow>
   is_complete ((FlipTile_update ^^ k) t) \<or>
   (flip_angle ((FlipTile_update ^^ k) t) = flip_angle t + real k * flip_speed t \<and>
    current_delay ((FlipTile_update ^^ k) t) \<le> 0)"
proof (induction k)
  case 0
  then show ?case by simp
next
  case (Suc k)
  let ?s = "(FlipTile_update ^^ k) t"
  show ?case
  proof (cases "is_complete ?s")
    case True
    then show ?thesis by (simp add: complete_update)
  next
    case False
    with Suc have st: "flip_angle ?s = flip_angle t + real k * flip_speed t"
      "current_delay ?s \<le> 0" by auto
    have sp: "flip_speed ?s = flip_speed t" by (simp add: funpow_const)
    show ?thesis
      using False st sp by (simp add: update_fields algebra_simps)
  qed
qed

lemma spin_done:
  assumes inv: "tile_inv t" and nc: "\<not> is_complete t" and dl: "current_delay t \<le> 0"
    and k: "total_rotation t \<le> flip_angle t + real k * flip_speed t"
  shows "is_complete ((FlipTile_update ^^ k) t)"
proof (rule ccontr)
  assume n: "\<not> is_complete ((FlipTile_update ^^ k) t)"
  with spin_phase[OF nc dl, of k]
  have "flip_angle ((FlipTile_update ^^ k) t) = flip_angle t + real k * flip_speed t" by blast
  moreover have "flip_angle ((FlipTile_update ^^ k) t) < total_rotation t"
    using tile_inv_funpow[OF inv, of k] n by (simp add: tile_inv_def funpow_const)
  ultimately show False using k by linarith
qed


lemma tile_completes:
  assumes v: "valid_draws r"
  shows "3 \<le> flip_speed (FlipTile_init a b x y sz dl e rv r) \<and>
         total_rotation (FlipTile_init a b x y sz dl e rv r) \<le> 720 \<and>
         (\<forall>n \<ge> nat dl + 240.
            is_complete ((FlipTile_update ^^ n) (FlipTile_init a b x y sz dl e rv r)))"
proof -
  let ?t0 = "FlipTile_init a b x y sz dl e rv r"
  let ?t1 = "(FlipTile_update ^^ nat dl) ?t0"
  have sp: "3 \<le> flip_speed ?t0"
    using v by (simp add: init_fields valid_draws_def FLIP_SPEED_def)
  have tot: "total_rotation ?t0 \<le> 720"
    using v by (simp add: init_fields valid_draws_def)
  have ph1: "current_delay ?t1 \<le> 0 \<and> flip_angle ?t1 = flip_angle ?t0 \<and> \<not> is_complete ?t1"
    by (rule delay_phase) (simp_all add: init_fields)
  have inv1: "tile_inv ?t1"
    using v by (intro tile_inv_funpow tile_inv_init)
  have "total_rotation ?t1 \<le> flip_angle ?t1 + real 240 * flip_speed ?t1"
    using sp tot ph1 by (simp add: funpow_const init_fields)
  with inv1 ph1 have c: "is_complete ((FlipTile_update ^^ 240) ?t1)"
    by (intro spin_done) simp_all
  have "is_complete ((FlipTile_update ^^ n) ?t0)" if "n \<ge> nat dl + 240" for n
  proof -
    from that obtain m where n: "n = m + (240 + nat dl)"
      by (metis add.commute le_Suc_ex)
    have "(FlipTile_update ^^ n) ?t0 = (FlipTile_update ^^ m) ((FlipTile_update ^^ 240) ?t1)"
      unfolding n by (simp add: funpow_add)
    with c show ?thesis by (simp add: complete_funpow)
  qed
  with sp tot show ?thesis by blast
qed


lemma length_flip_loop: "length (flip_loop n d c) = n"
  by (induction n arbitrary: c) (simp_all add: Let_def)

lemma length_flip_states: "length (flip_states orig mx my n d rv) = Suc n"
  by (simp add: flip_states_def Let_def length_flip_loop del: list_update.simps)

lemma last_flip_states_forward: "last (flip_states orig mx my n d False) = orig"
  by (simp add: flip_states_def Let_def last_list_update length_flip_loop
           del: list_update.simps)

lemma hd_flip_states_reverse: "hd (flip_states orig mx my n d True) = orig"
  by (simp add: flip_states_def Let_def hd_rev last_list_update length_flip_loop
           del: list_update.simps)

lemma last_flip_states_reverse:
  "0 < n \<Longrightarrow> last (flip_states orig mx my n d True) =
     (let c = (if mx then flip orig True False else orig)
      in if my then flip c False True else c)"
  by (simp add: flip_states_def Let_def last_rev hd_conv_nth length_flip_loop
           del: list_update.simps)

lemma init_surfaces:
  "flip_surfaces (FlipTile_init a b x y sz dl e rv r) =
     flip_states a (draw_mirror_x r) (draw_mirror_y r) (draw_flips r) (draw_direction r) rv"
  "flip_surfaces_soft (FlipTile_init a b x y sz dl e rv r) =
     flip_states b (draw_mirror_x r) (draw_mirror_y r) (draw_flips r) (draw_direction r) rv"
  "final_surface (FlipTile_init a b x y sz dl e rv r) =
     last (flip_states a (draw_mirror_x r) (draw_mirror_y r) (draw_flips r) (draw_direction r) rv)"
  "tile_x (FlipTile_init a b x y sz dl e rv r) = x"
  "tile_y (FlipTile_init a b x y sz dl e rv r) = y"
  "tile_size (FlipTile_init a b x y sz dl e rv r) = sz"
  "flip_direction (FlipTile_init a b x y sz dl e rv r) = draw_direction r"
  by (simp_all add: FlipTile_init_def precompute_flip_states_def Let_def)

lemma update_static:
  "flip_surfaces (FlipTile_update t) = flip_surfaces t"
  "flip_surfaces_soft (FlipTile_update t) = flip_surfaces_soft t"
  "final_surface (FlipTile_update t) = final_surface t"
  "tile_x (FlipTile_update t) = tile_x t"
  "tile_y (FlipTile_update t) = tile_y t"
  "tile_size (FlipTile_update t) = tile_size t"
  "flip_direction (FlipTile_update t) = flip_direction t"
  by (simp_all add: FlipTile_update_def Let_def start_animation_def)

lemma funpow_static:
  "flip_surfaces ((FlipTile_update ^^ n) t) = flip_surfaces t"
  "flip_surfaces_soft ((FlipTile_update ^^ n) t) = flip_surfaces_soft t"
  "final_surface ((FlipTile_update ^^ n) t) = final_surface t"
  "tile_x ((FlipTile_update ^^ n) t) = tile_x t"
  "tile_y ((FlipTile_update ^^ n) t) = tile_y t"
  "tile_size ((FlipTile_update ^^ n) t) = tile_size t"
  "flip_direction ((FlipTile_update ^^ n) t) = flip_direction t"
  by (induction n) (simp_all add: update_static)

lemma draw_complete:
  "is_complete t \<Longrightarrow> FlipTile_draw t soft = Inr (Blit (final_surface t) (tile_x t, tile_y t))"
  by (simp add: FlipTile_draw_def)




lemma fmod_range: "0 \<le> py_fmod a 180 \<and> py_fmod a 180 < 180"
proof -
  have "of_int \<lfloor>a / 180\<rfloor> * 180 \<le> a" by (rule floor_divide_lower) simp
  moreover have "a < (of_int \<lfloor>a / 180\<rfloor> + 1) * 180" by (rule floor_divide_upper) simp
  ultimately show ?thesis by (simp add: py_fmod_def algebra_simps)
qed

lemma fmod_mono: "\<lfloor>a / 180\<rfloor> = \<lfloor>b / 180\<rfloor> \<Longrightarrow> a \<le> b \<Longrightarrow> py_fmod a 180 \<le> py_fmod b 180"
  by (simp add: py_fmod_def)

lemma radians_mono: "u \<le> v \<Longrightarrow> radians u \<le> radians v"
  by (simp add: radians_def divide_right_mono mult_right_mono)

lemma radians_values: "radians 0 = 0" "radians 90 = pi / 2" "radians 180 = pi"
  by (simp_all add: radians_def)

lemma draw_scale_ge: "0.02 \<le> draw_scale a"
  by (simp add: draw_scale_def)

lemma draw_scale_falls:
  assumes "\<lfloor>a / 180\<rfloor> = \<lfloor>b / 180\<rfloor>" "a \<le> b" "py_fmod b 180 \<le> 90"
  shows "draw_scale b \<le> draw_scale a"
proof -
  let ?u = "radians (py_fmod a 180)" and ?v = "radians (py_fmod b 180)"
  have uv: "?u \<le> ?v" using assms by (intro radians_mono fmod_mono)
  have u0: "0 \<le> ?u" using radians_mono[of 0 "py_fmod a 180"] fmod_range[of a]
    by (simp add: radians_values)
  have v1: "?v \<le> pi / 2" using radians_mono[OF assms(3)] by (simp add: radians_values)
  have "cos ?v \<le> cos ?u" using u0 uv v1 by (intro cos_monotone_0_pi_le) simp_all
  moreover have "0 \<le> cos ?v" using u0 uv v1 by (intro cos_ge_zero) simp_all
  ultimately show ?thesis by (simp add: draw_scale_def)
qed

lemma draw_scale_rises:
  assumes "\<lfloor>a / 180\<rfloor> = \<lfloor>b / 180\<rfloor>" "a \<le> b" "90 \<le> py_fmod a 180"
  shows "draw_scale a \<le> draw_scale b"
proof -
  let ?u = "radians (py_fmod a 180)" and ?v = "radians (py_fmod b 180)"
  have uv: "?u \<le> ?v" using assms by (intro radians_mono fmod_mono)
  have u0: "pi / 2 \<le> ?u" using radians_mono[OF assms(3)] by (simp add: radians_values)
  have v1: "?v \<le> pi" using radians_mono[of "py_fmod b 180" 180] fmod_range[of b]
    by (simp add: radians_values)
  have "cos ?v \<le> cos ?u" using u0 uv v1 by (intro cos_monotone_0_pi_le) simp_all
  moreover have "cos ?u \<le> cos (pi / 2)" using u0 uv v1 by (intro cos_monotone_0_pi_le) simp_all
  ultimately show ?thesis by (simp add: draw_scale_def)
qed

lemma py_index_ok: "0 \<le> i \<Longrightarrow> i < int (length xs) \<Longrightarrow> py_index xs i = Inr (xs ! nat i)"
  by (simp add: py_index_def Let_def)

lemma draw_animating:
  assumes anim: "is_animating t" and nc: "\<not> is_complete t"
    and len: "length (flip_surfaces t) = Suc (target_flips t)"
             "length (flip_surfaces_soft t) = Suc (target_flips t)"
    and ang: "0 \<le> flip_angle t" "flip_angle t < 180 * real (target_flips t)"
  shows "\<exists>base pos. FlipTile_draw t soft =
           Inr (BlitScaled base
                 (if flip_direction t = Horizontal
                  then (max 1 (py_int (real_of_int (tile_size t) * draw_scale (flip_angle t))),
                        tile_size t)
                  else (tile_size t,
                        max 1 (py_int (real_of_int (tile_size t) * draw_scale (flip_angle t)))))
                 pos)"
proof -
  define i where "i = min (py_int (flip_angle t / 180)) (int (length (flip_surfaces t)) - 2)"
  define surfaces where "surfaces = (if soft then flip_surfaces_soft t else flip_surfaces t)"
  define j where "j = (if py_fmod (flip_angle t) 180 < 90 then i else i + 1)"
  have ls: "length surfaces = Suc (target_flips t)"
    by (simp add: surfaces_def len)
  have fl: "py_int (flip_angle t / 180) = \<lfloor>flip_angle t / 180\<rfloor>"
    using ang by (simp add: py_int_def)
  have "0 \<le> \<lfloor>flip_angle t / 180\<rfloor>" using ang by simp
  moreover have "\<lfloor>flip_angle t / 180\<rfloor> < int (target_flips t)"
    using ang by (simp add: floor_less_iff)
  ultimately have i: "0 \<le> i" "i + 1 < int (length surfaces)"
    by (simp_all add: i_def fl ls len)
  then have j: "0 \<le> j" "j < int (length surfaces)" by (simp_all add: j_def)
  have idx: "(if py_fmod (flip_angle t) 180 < 90 then py_index surfaces i
              else py_index surfaces (i + 1)) = Inr (surfaces ! nat j)"
    using py_index_ok[OF j] i by (simp add: j_def py_index_ok)
  show ?thesis
    unfolding FlipTile_draw_def Let_def i_def[symmetric] surfaces_def[symmetric] idx
    using anim nc by simp
qed


section \<open>Tile Animator: the claims\<close>

text \<open>
  C3, as stated: for every tile, whatever the starting mirrors and the \<open>reverse\<close> flag, the
  last element of the state sequence (the bitmap shown once the flip is complete) is the
  original tile bitmap. With \<open>reverse\<close> set and the start mirrored left-right, the last
  element is the mirrored bitmap: the claim fails.
\<close>

theorem C3_counterexample:
  "final_surface (FlipTile_init bitmap0 bitmap0 0 0 2 0 0 True draws0) \<noteq> bitmap0"
  by (simp add: init_surfaces flip_states_def flip_def Let_def draws0_def bitmap0_def)

text \<open>
  C3, amended: without \<open>reverse\<close>, the last element of the state sequence is the original
  tile bitmap whatever the starting mirrors, and it is what a completed tile draws. With
  \<open>reverse\<close> the sequence is reversed: its first element is the original bitmap, and the
  last, shown on completion, is the scrambled start (the original mirrored as drawn).
\<close>

theorem C3_amended:
  "(\<not> rv \<longrightarrow>
      last (flip_surfaces (FlipTile_init a b x y sz dl e rv r)) = a \<and>
      final_surface (FlipTile_init a b x y sz dl e rv r) = a \<and>
      (is_complete ((FlipTile_update ^^ n) (FlipTile_init a b x y sz dl e rv r)) \<longrightarrow>
         FlipTile_draw ((FlipTile_update ^^ n) (FlipTile_init a b x y sz dl e rv r)) soft
           = Inr (Blit a (x, y)))) \<and>
   (rv \<and> 1 \<le> draw_flips r \<longrightarrow>
      hd (flip_surfaces (FlipTile_init a b x y sz dl e rv r)) = a \<and>
      final_surface (FlipTile_init a b x y sz dl e rv r) =
        (let c = (if draw_mirror_x r then flip a True False else a)
         in if draw_mirror_y r then flip c False True else c))"
proof (intro conjI impI)
  assume f: "\<not> rv"
  show "last (flip_surfaces (FlipTile_init a b x y sz dl e rv r)) = a"
    using f by (simp add: init_surfaces last_flip_states_forward)
  show fs: "final_surface (FlipTile_init a b x y sz dl e rv r) = a"
    using f by (simp add: init_surfaces last_flip_states_forward)
  assume "is_complete ((FlipTile_update ^^ n) (FlipTile_init a b x y sz dl e rv r))"
  then show "FlipTile_draw ((FlipTile_update ^^ n) (FlipTile_init a b x y sz dl e rv r)) soft
           = Inr (Blit a (x, y))"
    using f by (simp add: draw_complete funpow_static init_surfaces last_flip_states_forward)
next
  assume r: "rv \<and> 1 \<le> draw_flips r"
  show "hd (flip_surfaces (FlipTile_init a b x y sz dl e rv r)) = a"
    using r by (simp add: init_surfaces hd_flip_states_reverse)
  show "final_surface (FlipTile_init a b x y sz dl e rv r) =
        (let c = (if draw_mirror_x r then flip a True False else a)
         in if draw_mirror_y r then flip c False True else c)"
    using r by (simp add: init_surfaces last_flip_states_reverse)
qed

theorem C3_amended_witness:
  "valid_draws draws0 \<and> 1 \<le> draw_flips draws0 \<and>
   last (flip_surfaces (FlipTile_init bitmap0 bitmap0 0 0 2 0 0 False draws0)) = bitmap0 \<and>
   is_complete ((FlipTile_update ^^ 240) (FlipTile_init bitmap0 bitmap0 0 0 2 0 0 False draws0)) \<and>
   FlipTile_draw ((FlipTile_update ^^ 240) (FlipTile_init bitmap0 bitmap0 0 0 2 0 0 False draws0))
     True = Inr (Blit bitmap0 (0, 0)) \<and>
   hd (flip_surfaces (FlipTile_init bitmap0 bitmap0 0 0 2 0 0 True draws0)) = bitmap0 \<and>
   final_surface (FlipTile_init bitmap0 bitmap0 0 0 2 0 0 True draws0) = [[2, 1], [4, 3]]"
proof -
  have v: "valid_draws draws0" "1 \<le> draw_flips draws0"
    by (simp_all add: valid_draws_def draws0_def)
  have c: "is_complete ((FlipTile_update ^^ 240)
             (FlipTile_init bitmap0 bitmap0 0 0 2 0 0 False draws0))"
    using tile_completes[OF v(1), of bitmap0 bitmap0 0 0 2 0 0 False] by simp
  from C3_amended [of False bitmap0 bitmap0 0 0 2 0 0 draws0 240 True] c
  have f: "last (flip_surfaces (FlipTile_init bitmap0 bitmap0 0 0 2 0 0 False draws0)) = bitmap0"
    "FlipTile_draw ((FlipTile_update ^^ 240) (FlipTile_init bitmap0 bitmap0 0 0 2 0 0 False draws0))
       True = Inr (Blit bitmap0 (0, 0))"
    by simp_all
  from C3_amended [of True bitmap0 bitmap0 0 0 2 0 0 draws0] v(2)
  have r: "hd (flip_surfaces (FlipTile_init bitmap0 bitmap0 0 0 2 0 0 True draws0)) = bitmap0"
    "final_surface (FlipTile_init bitmap0 bitmap0 0 0 2 0 0 True draws0) = [[2, 1], [4, 3]]"
    by (simp_all add: draws0_def bitmap0_def flip_def)
  from v c f r show ?thesis by simp
qed

text \<open>
  C4: after any number of \<open>update\<close> calls on a freshly built tile, one more call does not
  decrease \<open>flip_angle\<close>; the angle never exceeds \<open>total_rotation\<close>, which is 180 times the
  number of flips; and once the angle equals the total, \<open>update\<close> changes no field other
  than \<open>line_alpha\<close>.
\<close>

theorem C4:
  assumes "valid_draws r"
  shows "let s = (FlipTile_update ^^ n) (FlipTile_init a b x y sz dl e rv r) in
     flip_angle s \<le> flip_angle (FlipTile_update s) \<and>
     flip_angle s \<le> total_rotation s \<and>
     total_rotation s = 180 * real (draw_flips r) \<and>
     (flip_angle s = total_rotation s \<longrightarrow>
        FlipTile_update s = s\<lparr>line_alpha := line_alpha (FlipTile_update s)\<rparr>)"
proof -
  define s where "s = (FlipTile_update ^^ n) (FlipTile_init a b x y sz dl e rv r)"
  have inv: "tile_inv s"
    unfolding s_def using assms by (intro tile_inv_funpow tile_inv_init)
  have le: "flip_angle s \<le> total_rotation s"
    using inv by (simp add: tile_inv_def split: if_splits)
  have tot: "total_rotation s = 180 * real (draw_flips r)"
    unfolding s_def by (simp add: funpow_const init_fields)
  have fin: "flip_angle s = total_rotation s \<longrightarrow>
        FlipTile_update s = s\<lparr>line_alpha := line_alpha (FlipTile_update s)\<rparr>"
  proof
    assume "flip_angle s = total_rotation s"
    with inv have "is_complete s" by (simp add: tile_inv_def split: if_splits)
    then show "FlipTile_update s = s\<lparr>line_alpha := line_alpha (FlipTile_update s)\<rparr>"
      by (rule update_terminal)
  qed
  show ?thesis
    using update_mono[OF inv] le tot fin unfolding s_def[symmetric] Let_def by blast
qed

theorem C4_witness:
  "valid_draws draws0 \<and>
   flip_angle ((FlipTile_update ^^ 240) (FlipTile_init bitmap0 bitmap0 0 0 2 0 0 False draws0))
     = total_rotation ((FlipTile_update ^^ 240) (FlipTile_init bitmap0 bitmap0 0 0 2 0 0 False draws0)) \<and>
   (let s = (FlipTile_update ^^ 240) (FlipTile_init bitmap0 bitmap0 0 0 2 0 0 False draws0) in
     flip_angle s \<le> flip_angle (FlipTile_update s) \<and>
     flip_angle s \<le> total_rotation s \<and>
     total_rotation s = 180 * real (draw_flips draws0) \<and>
     (flip_angle s = total_rotation s \<longrightarrow>
        FlipTile_update s = s\<lparr>line_alpha := line_alpha (FlipTile_update s)\<rparr>))"
proof -
  have v: "valid_draws draws0" by (simp add: valid_draws_def draws0_def)
  let ?s = "(FlipTile_update ^^ 240) (FlipTile_init bitmap0 bitmap0 0 0 2 0 0 False draws0)"
  have "is_complete ?s" using tile_completes[OF v, of bitmap0 bitmap0 0 0 2 0 0 False] by simp
  moreover have "tile_inv ?s" using v by (intro tile_inv_funpow tile_inv_init)
  ultimately have "flip_angle ?s = total_rotation ?s" by (simp add: tile_inv_def)
  with v C4[OF v, of 240 bitmap0 bitmap0 0 0 2 0 0 False] show ?thesis by blast
qed

text \<open>
  C5: a tile that is animating and not complete, after any number of \<open>update\<close> calls, is
  drawn rescaled along the flip axis only (the width for a horizontal flip, the height for
  a vertical one, the other side staying \<open>size\<close>) by the factor
  \<open>max(0.02, |cos(angle mod 180 degrees)|)\<close>; the factor is never below 0.02; and between
  two angles of the same half-cycle it does not increase up to 90 degrees and does not
  decrease from 90 degrees on.
\<close>

theorem C5:
  assumes "valid_draws r"
  shows "(let s = (FlipTile_update ^^ n) (FlipTile_init img soft_img x y sz dl e rv r) in
          is_animating s \<and> \<not> is_complete s \<longrightarrow>
          (\<exists>base pos. FlipTile_draw s soft =
             Inr (BlitScaled base
                   (if flip_direction s = Horizontal
                    then (max 1 (py_int (real_of_int sz * draw_scale (flip_angle s))), sz)
                    else (sz, max 1 (py_int (real_of_int sz * draw_scale (flip_angle s)))))
                   pos))) \<and>
         draw_scale ang = max 0.02 \<bar>cos (radians (py_fmod ang 180))\<bar> \<and>
         0.02 \<le> draw_scale ang \<and>
         (\<lfloor>a / 180\<rfloor> = \<lfloor>b / 180\<rfloor> \<and> a \<le> b \<and> py_fmod b 180 \<le> 90
            \<longrightarrow> draw_scale b \<le> draw_scale a) \<and>
         (\<lfloor>a / 180\<rfloor> = \<lfloor>b / 180\<rfloor> \<and> a \<le> b \<and> 90 \<le> py_fmod a 180
            \<longrightarrow> draw_scale a \<le> draw_scale b)"
proof -
  define s where "s = (FlipTile_update ^^ n) (FlipTile_init img soft_img x y sz dl e rv r)"
  have inv: "tile_inv s"
    unfolding s_def using assms by (intro tile_inv_funpow tile_inv_init)
  have tot: "total_rotation s = 180 * real (target_flips s)"
    unfolding s_def by (simp add: funpow_const funpow_flips init_fields)
  have len: "length (flip_surfaces s) = Suc (target_flips s)"
    "length (flip_surfaces_soft s) = Suc (target_flips s)"
    unfolding s_def
    by (simp_all add: funpow_static funpow_flips init_surfaces init_fields length_flip_states)
  have sz: "tile_size s = sz"
    unfolding s_def by (simp add: funpow_static init_surfaces)
  have d: "is_animating s \<and> \<not> is_complete s \<longrightarrow>
          (\<exists>base pos. FlipTile_draw s soft =
             Inr (BlitScaled base
                   (if flip_direction s = Horizontal
                    then (max 1 (py_int (real_of_int sz * draw_scale (flip_angle s))), sz)
                    else (sz, max 1 (py_int (real_of_int sz * draw_scale (flip_angle s)))))
                   pos))"
  proof
    assume a: "is_animating s \<and> \<not> is_complete s"
    with inv tot have "0 \<le> flip_angle s" "flip_angle s < 180 * real (target_flips s)"
      by (simp_all add: tile_inv_def)
    from draw_animating[OF conjunct1[OF a] conjunct2[OF a] len this, of soft]
    show "\<exists>base pos. FlipTile_draw s soft =
             Inr (BlitScaled base
                   (if flip_direction s = Horizontal
                    then (max 1 (py_int (real_of_int sz * draw_scale (flip_angle s))), sz)
                    else (sz, max 1 (py_int (real_of_int sz * draw_scale (flip_angle s)))))
                   pos)"
      unfolding sz .
  qed
  show ?thesis
    unfolding Let_def s_def[symmetric]
    using d draw_scale_ge[of ang] draw_scale_falls[of a b] draw_scale_rises[of a b]
    by (simp add: draw_scale_def)
qed

theorem C5_witness:
  "valid_draws draws0 \<and>
   is_animating ((FlipTile_update ^^ 1) (FlipTile_init bitmap0 bitmap0 0 0 2 0 0 False draws0)) \<and>
   \<not> is_complete ((FlipTile_update ^^ 1) (FlipTile_init bitmap0 bitmap0 0 0 2 0 0 False draws0)) \<and>
   (\<exists>base pos.
      FlipTile_draw ((FlipTile_update ^^ 1) (FlipTile_init bitmap0 bitmap0 0 0 2 0 0 False draws0)) True
        = Inr (BlitScaled base (max 1 (py_int (2 * draw_scale 5)), 2) pos)) \<and>
   \<lfloor>(0 :: real) / 180\<rfloor> = \<lfloor>(90 :: real) / 180\<rfloor> \<and> (0 :: real) \<le> 90 \<and>
   py_fmod 90 180 \<le> 90 \<and> draw_scale 90 \<le> draw_scale 0 \<and>
   \<lfloor>(90 :: real) / 180\<rfloor> = \<lfloor>(179 :: real) / 180\<rfloor> \<and> (90 :: real) \<le> 179 \<and>
   90 \<le> py_fmod 90 180 \<and> draw_scale 90 \<le> draw_scale 179"
proof -
  have v: "valid_draws draws0" by (simp add: valid_draws_def draws0_def)
  let ?s = "(FlipTile_update ^^ 1) (FlipTile_init bitmap0 bitmap0 0 0 2 0 0 False draws0)"
  have st: "is_animating ?s" "\<not> is_complete ?s" "flip_angle ?s = 5"
    "flip_direction ?s = Horizontal"
    by (simp_all add: update_fields update_static init_fields init_surfaces
          FLIP_SPEED_def draws0_def)
  have fl: "\<lfloor>(0 :: real) / 180\<rfloor> = \<lfloor>(90 :: real) / 180\<rfloor>"
    "\<lfloor>(90 :: real) / 180\<rfloor> = \<lfloor>(179 :: real) / 180\<rfloor>"
    "py_fmod 90 180 = 90"
    by (simp_all add: py_fmod_def)
  from C5[OF v, of 1 bitmap0 bitmap0 0 0 2 0 0 False True 0 0 90] st fl
  have a: "(\<exists>base pos. FlipTile_draw ?s True
        = Inr (BlitScaled base (max 1 (py_int (2 * draw_scale 5)), 2) pos))"
    "draw_scale 90 \<le> draw_scale 0"
    by simp_all
  from C5[OF v, of 1 bitmap0 bitmap0 0 0 2 0 0 False True 0 90 179] fl
  have b: "draw_scale 90 \<le> draw_scale 179" by simp
  from v st fl a b show ?thesis by simp
qed

text \<open>
  C9: the speed of a tile is at least 3 and its total rotation at most 720, and a tile built
  with delay \<open>dl\<close> is complete after \<open>dl + 240\<close> calls of \<open>update\<close> and after any larger
  number, whatever the delay and the random draws (a delay that is not positive counts as 0).
\<close>

theorem C9:
  assumes "valid_draws r"
  shows "3 \<le> flip_speed (FlipTile_init a b x y sz dl e rv r) \<and>
         total_rotation (FlipTile_init a b x y sz dl e rv r) \<le> 720 \<and>
         (\<forall>n \<ge> nat dl + 240.
            is_complete ((FlipTile_update ^^ n) (FlipTile_init a b x y sz dl e rv r)))"
  using assms by (rule tile_completes)

theorem C9_witness:
  "valid_draws draws0 \<and> nat 7 + 240 \<le> (247 :: nat) \<and>
   is_complete ((FlipTile_update ^^ 247) (FlipTile_init bitmap0 bitmap0 0 0 2 7 0 False draws0))"
proof -
  have v: "valid_draws draws0" by (simp add: valid_draws_def draws0_def)
  from C9[OF v, of bitmap0 bitmap0 0 0 2 7 0 False] v show ?thesis by simp
qed

section \<open>Eye Gaze Shifter: lemmas\<close>

lemma sin_19: "(94/100 :: real) \<le> sin (19/10)"
proof -
  define S :: real where "S = (\<Sum>m<10. sin_coeff m * (19/10) ^ m)"
  define E :: real where "E = inverse (fact 10) * \<bar>19/10\<bar> ^ 10"
  have "\<bar>sin (19/10 :: real) - S\<bar> \<le> E"
    unfolding S_def E_def by (rule Maclaurin_sin_bound)
  then have "S - E \<le> sin (19/10)" by linarith
  moreover have "94/100 \<le> S - E"
    unfolding S_def E_def
    by (simp add: sin_coeff_def lessThan_nat_numeral fact_numeral power_divide)
  ultimately show ?thesis by linarith
qed

lemma sin_703: "(1/4 :: real) \<le> sin (703/100)"
proof -
  define S :: real where "S = (\<Sum>m<30. sin_coeff m * (703/100) ^ m)"
  define E :: real where "E = inverse (fact 30) * \<bar>703/100\<bar> ^ 30"
  have "\<bar>sin (703/100 :: real) - S\<bar> \<le> E"
    unfolding S_def E_def by (rule Maclaurin_sin_bound)
  then have "S - E \<le> sin (703/100)" by linarith
  moreover have "1/4 \<le> S - E"
    unfolding S_def E_def
    by (simp add: sin_coeff_def lessThan_nat_numeral fact_numeral power_divide)
  ultimately show ?thesis by linarith
qed

lemma init_eye_fields:
  "look_speed (EyeEffect_init img w h es) = 1 / 2"
  "max_shift (EyeEffect_init img w h es) = 8"
  "e_animation_duration (EyeEffect_init img w h es) = 10"
  "e_time (EyeEffect_init img w h es) = 0"
  "e_is_complete (EyeEffect_init img w h es) = False"
  "eyes (EyeEffect_init img w h es) = es"
  "e_original (EyeEffect_init img w h es) = img"
  "e_current_surface (EyeEffect_init img w h es) = img"
  by (simp_all add: EyeEffect_init_def)


lemma look_bounds:
  "\<bar>look_x t sp sh\<bar> \<le> \<bar>sh\<bar> + 2" "\<bar>look_y t sp sh\<bar> \<le> \<bar>sh\<bar> / 2 + 1"
proof -
  have a: "\<bar>sin u * sh\<bar> \<le> \<bar>sh\<bar>" for u :: real
    using abs_sin_le_one[of u] mult_right_mono[of "\<bar>sin u\<bar>" 1 "\<bar>sh\<bar>"]
    by (simp add: abs_mult)
  have b: "\<bar>sin u\<bar> \<le> 1" for u :: real by simp
  show "\<bar>look_x t sp sh\<bar> \<le> \<bar>sh\<bar> + 2"
    unfolding look_x_def using a[of "t * sp * 2"] b[of "t * 3.7"] by linarith
  show "\<bar>look_y t sp sh\<bar> \<le> \<bar>sh\<bar> / 2 + 1"
    unfolding look_y_def using a[of "t * sp * 1.5 + 1"] b[of "t * 2.3"] by linarith
qed


lemma nth_blit_area:
  "blit_area dest src (px, py) (ax, ay, aw, ah) =
     map (\<lambda>(y, row).
          map (\<lambda>(x, d).
                 let i = int x - px; j = int y - py
                 in if 0 \<le> i \<and> i < aw \<and> 0 \<le> j \<and> j < ah
                    then (case get_at src (ax + i, ay + j) of Inr c \<Rightarrow> c | Inl _ \<Rightarrow> d)
                    else d)
              (zip [0..<length row] row))
          (zip [0..<length dest] dest)"
  by (simp add: blit_area_def)

lemma get_width_shape: "has_shape shp s \<Longrightarrow> s \<noteq> [] \<Longrightarrow> get_width s = fst shp"
  by (cases s) (simp_all add: has_shape_def get_width_def)

lemma row_shape: "has_shape shp s \<Longrightarrow> y < length s \<Longrightarrow> int (length (s ! y)) = fst shp"
  unfolding has_shape_def using nth_mem by blast

lemma blit_same_shape:
  assumes d: "has_shape shp dest" and s: "has_shape shp src"
  shows "blit dest src (0, 0) = src"
proof (cases "src = []")
  case True
  with d s have "dest = []" by (simp add: has_shape_def get_height_def)
  with True show ?thesis by (simp add: blit_def blit_area_def)
next
  case False
  have len: "length dest = length src"
    using d s by (simp add: has_shape_def get_height_def)
  have w: "get_width src = fst shp" using s False by (rule get_width_shape)
  have rows: "length (dest ! y) = length (src ! y)" "int (length (src ! y)) = fst shp"
    if "y < length src" for y
  proof -
    from that len have y: "y < length dest" "y < length src" by simp_all
    have a: "int (length (dest ! y)) = fst shp" using d y(1) by (rule row_shape)
    show b: "int (length (src ! y)) = fst shp" using s y(2) by (rule row_shape)
    from a b show "length (dest ! y) = length (src ! y)" by simp
  qed
  show ?thesis
  proof (rule nth_equalityI)
    show "length (blit dest src (0, 0)) = length src"
      by (simp add: blit_def nth_blit_area len)
  next
    fix y assume "y < length (blit dest src (0, 0))"
    then have y: "y < length src" by (simp add: blit_def nth_blit_area len)
    show "blit dest src (0, 0) ! y = src ! y"
    proof (rule nth_equalityI)
      show "length (blit dest src (0, 0) ! y) = length (src ! y)"
        using y rows[OF y] by (simp add: blit_def nth_blit_area len)
    next
      fix x assume "x < length (blit dest src (0, 0) ! y)"
      then have x: "x < length (src ! y)"
        using y rows[OF y] by (simp add: blit_def nth_blit_area len)
      then show "blit dest src (0, 0) ! y ! x = src ! y ! x"
        using y rows[OF y] w
        by (simp add: blit_def nth_blit_area len get_at_def get_height_def)
    qed
  qed
qed

lemma update_complete_eye: "e_is_complete s \<Longrightarrow> EyeEffect_update s = Inr s"
  by (simp add: EyeEffect_update_def)

lemma updates_complete_eye: "e_is_complete s \<Longrightarrow> EyeEffect_updates n s = Inr s"
  by (induction n) (simp_all add: update_complete_eye)

lemma update_timeout_eye:
  assumes "eyes s \<noteq> []" "\<not> e_is_complete s" "e_animation_duration s \<le> e_time s + 1 / FPS"
  shows "EyeEffect_update s =
           Inr (s\<lparr>e_time := e_time s + 1 / FPS, e_is_complete := True,
                  e_current_surface := e_original s\<rparr>)"
  using assms by (simp add: EyeEffect_update_def Let_def)

section \<open>Eye Gaze Shifter: the claims\<close>

text \<open>
  C1, as stated: at every tick before completion each component of the gaze offset is
  within \<open>max_shift\<close> (8 pixels) in magnitude. After 114 ticks (1.9 seconds) the
  horizontal offset computed by \<open>update\<close> is above 8: the claim fails.
\<close>

theorem C1_counterexample:
  "\<not> \<bar>look_x (114 / FPS) (look_speed (EyeEffect_init image0 2 2 [eye0]))
          (max_shift (EyeEffect_init image0 2 2 [eye0]))\<bar>
      \<le> max_shift (EyeEffect_init image0 2 2 [eye0])"
proof -
  have "look_x (114 / FPS) (1 / 2) 8 = sin (19 / 10) * 8 + sin (703 / 100) * 2"
    by (simp add: look_x_def FPS_def)
  with sin_19 sin_703 show ?thesis
    by (simp add: init_eye_fields)
qed

text \<open>
  C1, amended: the gaze offset is the sum of the sinusoids, with no clamp. At every time
  its horizontal component is within \<open>max_shift + 2\<close> (10 pixels) and its vertical
  component within \<open>max_shift / 2 + 1\<close> (5 pixels) in magnitude, \<open>max_shift\<close> being 8.
\<close>

theorem C1_amended:
  "\<bar>look_x t (look_speed (EyeEffect_init img w h es)) (max_shift (EyeEffect_init img w h es))\<bar>
     \<le> max_shift (EyeEffect_init img w h es) + 2 \<and>
   \<bar>look_y t (look_speed (EyeEffect_init img w h es)) (max_shift (EyeEffect_init img w h es))\<bar>
     \<le> max_shift (EyeEffect_init img w h es) / 2 + 1 \<and>
   max_shift (EyeEffect_init img w h es) = 8"
  using look_bounds[of t "1 / 2" 8] by (simp add: init_eye_fields)

text \<open>
  C8: when an effect with at least one eye, not yet complete, is updated at a time that
  reaches \<open>animation_duration\<close>, the update returns with \<open>is_complete\<close> set and the
  current surface equal to the original image; what \<open>draw\<close> renders is the blit of the
  original image, which is the original image itself on a screen of the same shape; and any
  number of further updates leaves that state as it is. A complete effect is left
  unchanged by any number of updates.
\<close>

theorem C8:
  "(eyes s \<noteq> [] \<and> \<not> e_is_complete s \<and> e_animation_duration s \<le> e_time s + 1 / FPS \<longrightarrow>
      (\<exists>s'. EyeEffect_update s = Inr s' \<and> e_is_complete s' \<and>
            e_current_surface s' = e_original s \<and> e_original s' = e_original s \<and>
            EyeEffect_draw s' screen = blit screen (e_original s) (0, 0) \<and>
            (has_shape shp screen \<and> has_shape shp (e_original s) \<longrightarrow>
               EyeEffect_draw s' screen = e_original s) \<and>
            EyeEffect_updates n s' = Inr s')) \<and>
   (e_is_complete s \<longrightarrow> EyeEffect_updates n s = Inr s)"
proof (intro conjI impI)
  assume a: "eyes s \<noteq> [] \<and> \<not> e_is_complete s \<and> e_animation_duration s \<le> e_time s + 1 / FPS"
  define s' where "s' = s\<lparr>e_time := e_time s + 1 / FPS, e_is_complete := True,
                  e_current_surface := e_original s\<rparr>"
  have u: "EyeEffect_update s = Inr s'"
    unfolding s'_def using a by (intro update_timeout_eye) simp_all
  have c: "e_is_complete s'" "e_current_surface s' = e_original s" "e_original s' = e_original s"
    by (simp_all add: s'_def)
  have dr: "EyeEffect_draw s' screen = blit screen (e_original s) (0, 0)"
    by (simp add: EyeEffect_draw_def c)
  have "has_shape shp screen \<and> has_shape shp (e_original s) \<longrightarrow>
               EyeEffect_draw s' screen = e_original s"
    using blit_same_shape[of shp screen "e_original s"] by (simp add: dr)
  with u c dr updates_complete_eye[OF c(1), of n]
  show "\<exists>s'. EyeEffect_update s = Inr s' \<and> e_is_complete s' \<and>
            e_current_surface s' = e_original s \<and> e_original s' = e_original s \<and>
            EyeEffect_draw s' screen = blit screen (e_original s) (0, 0) \<and>
            (has_shape shp screen \<and> has_shape shp (e_original s) \<longrightarrow>
               EyeEffect_draw s' screen = e_original s) \<and>
            EyeEffect_updates n s' = Inr s'"
    by blast
next
  assume "e_is_complete s"
  then show "EyeEffect_updates n s = Inr s" by (rule updates_complete_eye)
qed

theorem C8_witness:
  "eyes effect0 \<noteq> [] \<and> \<not> e_is_complete effect0 \<and>
   e_animation_duration effect0 \<le> e_time effect0 + 1 / FPS \<and>
   has_shape (2, 2) image0 \<and> has_shape (2, 2) (e_original effect0) \<and>
   (\<exists>s'. EyeEffect_update effect0 = Inr s' \<and> e_is_complete s' \<and>
         EyeEffect_draw s' image0 = e_original effect0 \<and> EyeEffect_updates 3 s' = Inr s') \<and>
   e_is_complete (effect0\<lparr>e_is_complete := True\<rparr>) \<and>
   EyeEffect_updates 3 (effect0\<lparr>e_is_complete := True\<rparr>) = Inr (effect0\<lparr>e_is_complete := True\<rparr>)"
proof -
  have h: "eyes effect0 \<noteq> [] \<and> \<not> e_is_complete effect0 \<and>
           e_animation_duration effect0 \<le> e_time effect0 + 1 / FPS"
    by (simp add: effect0_def EyeEffect_init_def FPS_def)
  have o: "e_original effect0 = image0"
    by (simp add: effect0_def EyeEffect_init_def)
  have shp: "has_shape (2, 2) image0"
    by (simp add: has_shape_def image0_def get_height_def)
  from C8 [of effect0 image0 "(2, 2)" 3] h shp o
  have a: "\<exists>s'. EyeEffect_update effect0 = Inr s' \<and> e_is_complete s' \<and>
         EyeEffect_draw s' image0 = e_original effect0 \<and> EyeEffect_updates 3 s' = Inr s'"
    by auto
  from C8 [of "effect0\<lparr>e_is_complete := True\<rparr>" image0 "(2, 2)" 3]
  have b: "EyeEffect_updates 3 (effect0\<lparr>e_is_complete := True\<rparr>)
             = Inr (effect0\<lparr>e_is_complete := True\<rparr>)"
    by simp
  from h shp o a b show ?thesis by simp
qed

section \<open>Region Synthesizer: lemmas\<close>

lemma mask_region_at:
  "mask_region cv shape m r p = (if in_frame shape p \<and> spec_region cv r p then 255 else m p)"
  by (simp add: mask_region_def fillPoly_def rectangle_def spec_region_def)

lemma foldl_mask_region:
  "foldl (mask_region cv shape) m rs p =
     (if in_frame shape p \<and> list_ex (\<lambda>r. spec_region cv r p) rs then 255 else m p)"
  by (induction rs arbitrary: m) (auto simp add: mask_region_at)

lemma composite_mask_spec: "composite_mask cv shape rs = spec_composite_mask cv shape rs"
  by (rule ext) (simp add: composite_mask_def spec_composite_mask_def foldl_mask_region zeros_def)



lemma hidden_update_unset: "hidden_surface s = None \<Longrightarrow> HiddenEffect_update ab s = s"
  by (simp add: HiddenEffect_update_def)

lemma hidden_updates_unset: "hidden_surface s = None \<Longrightarrow> (HiddenEffect_update ab ^^ n) s = s"
  by (induction n) (simp_all add: hidden_update_unset)

section \<open>Region Synthesizer: the claims\<close>

text \<open>
  C7: a region whose polygon has fewer than 3 points is entered into the mask by
  \<open>cv2.rectangle\<close> on its bounding rectangle and not by \<open>cv2.fillPoly\<close>, a region with
  at least 3 points by \<open>cv2.fillPoly\<close>; and the composite mask built by the loop is the
  union the specification describes.
\<close>

theorem C7:
  "(length (polygon r) < 3 \<longrightarrow>
      mask_region cv shape m r =
        rectangle shape m (r_x r, r_y r) (r_x r + r_w r, r_y r + r_h r) 255) \<and>
   (length (polygon r) \<ge> 3 \<longrightarrow>
      mask_region cv shape m r = fillPoly cv shape m (polygon r) 255) \<and>
   composite_mask cv shape rs = spec_composite_mask cv shape rs"
  by (simp add: composite_mask_spec mask_region_def)

theorem C7_witness:
  "length (polygon (process_region data0)) < 3 \<and>
   mask_region cv0 (4, 4) zeros (process_region data0) (1, 0) = 255 \<and>
   length (polygon (process_region data1)) \<ge> 3 \<and>
   mask_region cv0 (4, 4) zeros (process_region data1) (3, 3) = 0 \<and>
   composite_mask cv0 (4, 4) [process_region data0, process_region data1] (1, 0) = 255 \<and>
   composite_mask cv0 (4, 4) [process_region data0, process_region data1] (2, 3) = 255 \<and>
   composite_mask cv0 (4, 4) [process_region data0, process_region data1] (3, 3) = 0"
  using C7 [of "process_region data0" cv0 "(4, 4)" zeros
              "[process_region data0, process_region data1]"]
        C7 [of "process_region data1" cv0 "(4, 4)" zeros "[]"]
  by (simp add: process_region_def data0_def data1_def cv0_def spec_composite_mask_def
        spec_region_def in_frame_def rectangle_def fillPoly_def zeros_def)

text \<open>
  C10: built with no region data (\<open>None\<close> or an empty list), the effect has no hidden
  surface; after any number of \<open>update\<close> calls it is the state it was, at time 0, not
  complete, its current surface the original image, which is what \<open>draw\<close> blits.
\<close>

theorem C10:
  "\<exists>s. HiddenEffect_init cap cv img w h None = Inr s \<and>
       HiddenEffect_init cap cv img w h (Some []) = Inr s \<and>
       hidden_surface s = None \<and>
       (HiddenEffect_update ab ^^ n) s = s \<and>
       h_time ((HiddenEffect_update ab ^^ n) s) = 0 \<and>
       \<not> h_is_complete ((HiddenEffect_update ab ^^ n) s) \<and>
       h_current_surface ((HiddenEffect_update ab ^^ n) s) = img \<and>
       HiddenEffect_draw ((HiddenEffect_update ab ^^ n) s) screen = blit screen img (0, 0) \<and>
       (has_shape shp screen \<and> has_shape shp img \<longrightarrow>
          HiddenEffect_draw ((HiddenEffect_update ab ^^ n) s) screen = img)"
  using blit_same_shape [of shp screen img]
  by (simp add: HiddenEffect_init_def hidden_updates_unset HiddenEffect_draw_def)

theorem C10_witness:
  "has_shape (2, 2) image0 \<and>
   (\<exists>s. HiddenEffect_init no_cv2 cv0 image0 2 2 None = Inr s \<and>
        HiddenEffect_init no_cv2 cv0 image0 2 2 (Some []) = Inr s \<and>
        hidden_surface s = None \<and>
        (HiddenEffect_update (\<lambda>a dest src. src) ^^ 600) s = s \<and>
        \<not> h_is_complete ((HiddenEffect_update (\<lambda>a dest src. src) ^^ 600) s) \<and>
        HiddenEffect_draw ((HiddenEffect_update (\<lambda>a dest src. src) ^^ 600) s) image0 = image0)"
proof -
  have shp: "has_shape (2, 2) image0"
    by (simp add: has_shape_def image0_def get_height_def)
  from C10 [where cap = no_cv2 and cv = cv0 and img = image0 and w = 2 and h = 2
              and ab = "\<lambda>a dest src. src" and n = 600 and screen = image0
              and shp = "(2, 2)"] shp
  show ?thesis by auto
qed

section \<open>Region Synthesizer: what becomes of the cloned pixels\<close>

lemma foldl_max_ge: "x \<in> set xs \<Longrightarrow> (x :: nat) \<le> foldl max a xs"
proof (induction xs arbitrary: a)
  case Nil then show ?case by simp
next
  case (Cons y ys)
  have mono: "b \<le> foldl max b ys" for b :: nat
  proof (induction ys arbitrary: b)
    case Nil show ?case by simp
  next
    case (Cons z zs)
    have "b \<le> max b z" by simp
    also have "\<dots> \<le> foldl max (max b z) zs" by (rule Cons.IH)
    finally show ?case by simp
  qed
  show ?case
  proof (cases "x = y")
    case True
    have "x \<le> max a y" using True by simp
    also have "\<dots> \<le> foldl max (max a y) ys" by (rule mono)
    finally show ?thesis by simp
  next
    case False
    with Cons.prems have "x \<in> set ys" by simp
    then show ?thesis using Cons.IH by simp
  qed
qed

lemma window_mem:
  "i \<in> set is \<Longrightarrow> j \<in> set js \<Longrightarrow>
   (a + i, b + j) \<in> set (concat (map (\<lambda>j. map (\<lambda>i. (a + i, b + j)) is) js))"
  by auto

lemma dilate1_extensive: "in_frame shape p \<Longrightarrow> m p \<le> dilate1 shape 3 m p"
proof -
  assume f: "in_frame shape p"
  let ?ps = "filter (in_frame shape)
               (concat (map (\<lambda>j. map (\<lambda>i. (fst p + i, snd p + j)) [- (3 div 2)..3 - 1 - 3 div 2])
                          [- (3 div 2)..3 - 1 - 3 div 2]))"
  have "(0 :: int) \<in> set [- (3 div 2)..3 - 1 - 3 div 2]" by simp
  from window_mem[OF this this, of "fst p" "snd p"] f
  have "p \<in> set ?ps" by simp
  then have "m p \<in> set (map m ?ps)" unfolding set_map by (rule imageI)
  then have "m p \<le> foldl max 0 (map m ?ps)" by (rule foldl_max_ge)
  with f show ?thesis by (simp add: dilate1_def)
qed

lemma mask_inpaint_zero: "mask_inpaint shape m p = 0 \<Longrightarrow> m p = 0"
proof (cases "in_frame shape p")
  case True
  assume "mask_inpaint shape m p = 0"
  with dilate1_extensive[OF True, of m] show ?thesis
    by (simp add: mask_inpaint_def dilate_def)
next
  case False
  assume "mask_inpaint shape m p = 0"
  with False show ?thesis by (simp add: mask_inpaint_def dilate_def dilate1_def)
qed

lemma foldl_keeps:
  assumes "\<And>res d. d \<in> set ds \<Longrightarrow> f res d q = res q"
  shows "foldl f res ds q = res q"
  using assms by (induction ds arbitrary: res) simp_all

lemma clone_pixel_outside:
  "region_mask q = 0 \<Longrightarrow>
   clone_pixel shape r region_mask smr sr result d q = result q"
  by (cases d) (auto simp add: clone_pixel_def Let_def)

lemma clone_region_outside:
  assumes "clone_region cv shape orig r sp region_mask result = Inr result'"
    and "region_mask q = 0"
  shows "result' q = result q"
  using assms
  by (auto simp add: clone_region_def Let_def foldl_keeps clone_pixel_outside
        split: if_splits sum.splits)

lemma fill_pixel_outside:
  "snd ip \<noteq> q \<Longrightarrow> fill_pixel cv mean k result ip q = result q"
  by (cases ip) (simp add: fill_pixel_def split: prod.splits)

lemma fill_region_outside:
  assumes "region_mask q = 0"
  shows "fst (fill_region cv shape orig region_mask st) q = fst st q"
proof -
  have "foldl (fill_pixel cv mean k) res
          (zip [0..<length (filter (\<lambda>p. region_mask p > 0) ps)]
               (filter (\<lambda>p. region_mask p > 0) ps)) q = res q" for mean k res ps
  proof (rule foldl_keeps)
    fix res' d
    assume "d \<in> set (zip [0..<length (filter (\<lambda>p. region_mask p > 0) ps)]
               (filter (\<lambda>p. region_mask p > 0) ps))"
    then have "(fst d, snd d) \<in> set (zip [0..<length (filter (\<lambda>p. region_mask p > 0) ps)]
               (filter (\<lambda>p. region_mask p > 0) ps))" by simp
    then have "snd d \<in> set (filter (\<lambda>p. region_mask p > 0) ps)"
      by (rule set_zip_rightD)
    with assms have "snd d \<noteq> q" by auto
    then show "fill_pixel cv mean k res' d q = res' q" by (rule fill_pixel_outside)
  qed
  then show ?thesis
    by (cases st) (simp add: fill_region_def Let_def)
qed

lemma synth_region_outside:
  assumes "synth_region cv shape orig st r = Inr st'"
    and "\<not> (3 \<le> length (polygon r) \<and> in_frame shape q \<and> raster cv (polygon r) q)"
  shows "fst st' q = fst st q"
proof (cases "length (polygon r) < 3")
  case True
  with assms(1) show ?thesis by (simp add: synth_region_def)
next
  case False
  let ?rm = "fillPoly cv shape zeros (polygon r) 255"
  from False assms(2) have z: "?rm q = 0"
    by (auto simp add: fillPoly_def zeros_def)
  have cl: "res q = fst st q"
    if "clone_region cv shape orig r sp ?rm (fst st) = Inr res" for sp res
    using that z by (rule clone_region_outside)
  have fl: "fst (fill_region cv shape orig ?rm st) q = fst st q"
    using z by (rule fill_region_outside)
  show ?thesis
    using assms(1) False cl fl
    by (auto simp add: synth_region_def Let_def split: option.splits sum.splits if_splits)
qed

lemma synth_regions_outside:
  assumes "synth_regions cv shape orig st rs = Inr st'"
    and "\<forall>r \<in> set rs. \<not> (3 \<le> length (polygon r) \<and> in_frame shape q \<and> raster cv (polygon r) q)"
  shows "fst st' q = fst st q"
  using assms
proof (induction rs arbitrary: st)
  case Nil
  then show ?case by simp
next
  case (Cons r rs)
  from Cons.prems(1) obtain st1 where
    1: "synth_region cv shape orig st r = Inr st1" and
    2: "synth_regions cv shape orig st1 rs = Inr st'"
    by (auto split: sum.splits)
  from Cons.prems(2) have "fst st1 q = fst st q"
    by (intro synth_region_outside[OF 1]) simp
  moreover from Cons.prems(2) have "fst st' q = fst st1 q"
    by (intro Cons.IH[OF 2]) simp
  ultimately show ?case by simp
qed

lemma composite_mask_zero:
  assumes "composite_mask cv shape rs q = 0" and "r \<in> set rs"
  shows "\<not> (3 \<le> length (polygon r) \<and> in_frame shape q \<and> raster cv (polygon r) q)"
proof
  assume a: "3 \<le> length (polygon r) \<and> in_frame shape q \<and> raster cv (polygon r) q"
  then have "spec_region cv r q" by (simp add: spec_region_def)
  with assms(2) have "list_ex (\<lambda>r. spec_region cv r q) rs" by (auto simp add: list_ex_iff)
  with a have "composite_mask cv shape rs q = 255"
    by (simp add: composite_mask_spec spec_composite_mask_def)
  with assms(1) show False by simp
qed

lemma finish_discards:
  assumes c: "inpaint_fills_mask cv shape"
    and s: "synth_regions cv shape orig (orig, k0) rs = Inr st"
  shows "finish cv shape orig (composite_mask cv shape rs) (fst st) =
         finish cv shape orig (composite_mask cv shape rs) orig"
proof -
  let ?m = "mask_inpaint shape (composite_mask cv shape rs)"
  have "fst st p = orig p" if "?m p = 0" for p
  proof -
    from that have "composite_mask cv shape rs p = 0" by (rule mask_inpaint_zero)
    then have "\<forall>r \<in> set rs. \<not> (3 \<le> length (polygon r) \<and> in_frame shape p \<and> raster cv (polygon r) p)"
      using composite_mask_zero by blast
    from synth_regions_outside[OF s this] show ?thesis by simp
  qed
  with c have "inpaint cv shape (fst st) ?m = inpaint cv shape orig ?m"
    unfolding inpaint_fills_mask_def by blast
  then show ?thesis by (simp add: finish_def Let_def)
qed

lemma region_pixel_in_mask_inpaint:
  assumes "r \<in> set rs" "3 \<le> length (polygon r)"
    and "fillPoly cv shape zeros (polygon r) 255 p > 0"
  shows "mask_inpaint shape (composite_mask cv shape rs) p > 0"
proof (rule ccontr)
  assume "\<not> mask_inpaint shape (composite_mask cv shape rs) p > 0"
  then have "composite_mask cv shape rs p = 0" by (intro mask_inpaint_zero) simp
  from composite_mask_zero[OF this assms(1)] assms(2,3) show False
    by (simp add: fillPoly_def zeros_def split: if_splits)
qed

lemma clone_loop_writes:
  "foldl (clone_pixel shape r rm smr sr) res ds q =
     (if \<exists>d \<in> set ds. q = (r_x r + fst d, r_y r + snd d) \<and> in_frame shape q \<and>
                        rm q > 0 \<and> smr d > 0
      then sr (fst q - r_x r, snd q - r_y r) else res q)"
proof (induction ds arbitrary: res)
  case Nil
  show ?case by simp
next
  case (Cons d ds)
  have step: "clone_pixel shape r rm smr sr res d q =
      (if q = (r_x r + fst d, r_y r + snd d) \<and> in_frame shape q \<and> rm q > 0 \<and> smr d > 0
       then sr (fst q - r_x r, snd q - r_y r) else res q)" for res
    by (cases d; cases shape) (auto simp add: clone_pixel_def Let_def in_frame_def)
  show ?case
    unfolding foldl_Cons Cons.IH step by auto
qed


lemma cv0_contract: "inpaint_fills_mask cv0 shape"
  by (auto simp add: inpaint_fills_mask_def cv0_def)

lemma image4_array:
  "to_array image4 (4, 4) = Inr (\<lambda>p. if in_frame (4, 4) p then concat image4 ! nat (snd p * 4 + fst p) else (0, 0, 0))"
proof -
  have "int (length (concat image4)) = 4 * 4" by (simp add: image4_def)
  then show ?thesis by (simp add: to_array_def Let_def)
qed

lemma clone_written:
  "map_sum id (\<lambda>st. fst st (0, 0))
     (synth_regions cv0 (4, 4)
        (cvtColor (\<lambda>p. if in_frame (4, 4) p then concat image4 ! nat (snd p * 4 + fst p) else (0, 0, 0)))
        (cvtColor (\<lambda>p. if in_frame (4, 4) p then concat image4 ! nat (snd p * 4 + fst p) else (0, 0, 0)), 0)
        [process_region data2])
   = Inr (0, 0, 10)"
  by (simp add: synth_region_def process_region_def data2_def clone_region_def resize_def
        crop_def py_slice_def Let_def fillPoly_def zeros_def in_frame_def cv0_def
        clone_pixel_def cvtColor_def get_at_def image4_def upto_rec1)

lemma frombuffer_origin: "get_at (frombuffer f (4, 4)) (0, 0) = Inr (f (0, 0))"
  by (simp add: frombuffer_def get_at_def upto_rec1)

lemma finish_cv0:
  assumes "mask_inpaint shape m p > 0" "m p = 255"
  shows "finish cv0 shape orig m res p = (0, 0, 0)"
  using assms by (simp add: finish_def Let_def cv0_def astype_uint8_def py_int_def split: prod.splits)

text \<open>
  C2 says that a pixel of a clone region at which both masks are set has, in the final
  hidden composite, the colour of the resized source crop and not one from the inpainting
  pass. The clone loop does write that colour into \<open>result\<close> (\<open>clone_loop_writes\<close>), but
  every pixel of every region's mask lies in the mask handed to \<open>cv2.inpaint\<close>; and when
  the inpainting computes the masked pixels from the others, as the library documents, the
  hidden composite is the one obtained from the untouched image: nothing written by the
  second loop, cloned or pre-filled, reaches it.
\<close>

theorem C2_clone_is_inpainted:
  "(r \<in> set rs \<and> 3 \<le> length (polygon r) \<and> fillPoly cv shape zeros (polygon r) 255 p > 0
      \<longrightarrow> mask_inpaint shape (composite_mask cv shape rs) p > 0) \<and>
   (inpaint_fills_mask cv shape \<longrightarrow>
      synthesize cv shape img rs =
        (case to_array img shape of
           Inl e \<Rightarrow> Inl e
         | Inr a \<Rightarrow>
             (case synth_regions cv shape (cvtColor a) (cvtColor a, 0) rs of
                Inl e \<Rightarrow> Inl e
              | Inr st \<Rightarrow>
                  Inr (frombuffer
                         (cvtColor (finish cv shape (cvtColor a) (composite_mask cv shape rs)
                                      (cvtColor a)))
                         shape))))"
proof (intro conjI impI)
  assume "r \<in> set rs \<and> 3 \<le> length (polygon r) \<and> fillPoly cv shape zeros (polygon r) 255 p > 0"
  then show "mask_inpaint shape (composite_mask cv shape rs) p > 0"
    using region_pixel_in_mask_inpaint by blast
next
  assume c: "inpaint_fills_mask cv shape"
  show "synthesize cv shape img rs =
        (case to_array img shape of
           Inl e \<Rightarrow> Inl e
         | Inr a \<Rightarrow>
             (case synth_regions cv shape (cvtColor a) (cvtColor a, 0) rs of
                Inl e \<Rightarrow> Inl e
              | Inr st \<Rightarrow>
                  Inr (frombuffer
                         (cvtColor (finish cv shape (cvtColor a) (composite_mask cv shape rs)
                                      (cvtColor a)))
                         shape)))"
  proof (cases "to_array img shape")
    case (Inl e)
    then show ?thesis by (simp add: synthesize_def)
  next
    case (Inr a)
    show ?thesis
    proof (cases "synth_regions cv shape (cvtColor a) (cvtColor a, 0) rs")
      case (Inl e)
      with Inr show ?thesis by (simp add: synthesize_def Let_def)
    next
      case st: (Inr st)
      from finish_discards[OF c st] Inr st show ?thesis
        by (cases st) (simp add: synthesize_def Let_def)
    qed
  qed
qed

theorem C2_clone_is_inpainted_witness:
  "process_region data2 \<in> set [process_region data2] \<and>
   3 \<le> length (polygon (process_region data2)) \<and>
   fillPoly cv0 (4, 4) zeros (polygon (process_region data2)) 255 (0, 0) > 0 \<and>
   mask_inpaint (4, 4) (composite_mask cv0 (4, 4) [process_region data2]) (0, 0) > 0 \<and>
   inpaint_fills_mask cv0 (4, 4) \<and>
   map_sum id (\<lambda>s. get_at s (0, 0)) (synthesize cv0 (4, 4) image4 [process_region data2])
     = Inr (Inr (0, 0, 0))"
proof -
  let ?A = "cvtColor (\<lambda>p. if in_frame (4, 4) p then concat image4 ! nat (snd p * 4 + fst p) else (0, 0, 0))"
  let ?R = "process_region data2"
  have h: "?R \<in> set [?R] \<and> 3 \<le> length (polygon ?R) \<and>
           fillPoly cv0 (4, 4) zeros (polygon ?R) 255 (0, 0) > 0"
    by (simp add: process_region_def data2_def fillPoly_def in_frame_def cv0_def)
  from C2_clone_is_inpainted [of ?R "[?R]" cv0 "(4, 4)" "(0, 0)" image4] h cv0_contract [of "(4, 4)"]
  have mi: "mask_inpaint (4, 4) (composite_mask cv0 (4, 4) [?R]) (0, 0) > 0"
    and eq: "synthesize cv0 (4, 4) image4 [?R] =
      (case synth_regions cv0 (4, 4) ?A (?A, 0) [?R] of
             Inl e \<Rightarrow> Inl e
           | Inr st \<Rightarrow>
               Inr (frombuffer (cvtColor (finish cv0 (4, 4) ?A (composite_mask cv0 (4, 4) [?R]) ?A))
                      (4, 4)))"
    by (simp_all add: image4_array)
  have cm: "composite_mask cv0 (4, 4) [?R] (0, 0) = 255"
    by (simp add: composite_mask_spec spec_composite_mask_def spec_region_def in_frame_def
          process_region_def data2_def cv0_def)
  obtain st where st: "synth_regions cv0 (4, 4) ?A (?A, 0) [?R] = Inr st"
    using clone_written by (cases "synth_regions cv0 (4, 4) ?A (?A, 0) [?R]") auto
  have "map_sum id (\<lambda>s. get_at s (0, 0)) (synthesize cv0 (4, 4) image4 [?R])
          = Inr (Inr (0, 0, 0))"
    unfolding eq st by (simp add: frombuffer_origin cvtColor_def finish_cv0[OF mi cm])
  with h mi cv0_contract [of "(4, 4)"] show ?thesis by blast
qed

section \<open>Region Synthesizer: the missing capability\<close>

lemma frombuffer_at_1_0: "get_at (frombuffer f (4, 4)) (1, 0) = Inr (f (1, 0))"
  by (simp add: frombuffer_def get_at_def upto_rec1)

lemma synthesize_example:
  "\<exists>hid. synthesize cv0 (4, 4) image4 [process_region data2] = Inr hid \<and>
         get_at hid (1, 0) = Inr (0, 0, 0)"
proof -
  let ?A = "cvtColor (\<lambda>p. if in_frame (4, 4) p then concat image4 ! nat (snd p * 4 + fst p)
                             else (0, 0, 0))"
  let ?R = "process_region data2"
  let ?M = "composite_mask cv0 (4, 4) [?R]"
  obtain st where st: "synth_regions cv0 (4, 4) ?A (?A, 0) [?R] = Inr st"
    using clone_written by (cases "synth_regions cv0 (4, 4) ?A (?A, 0) [?R]") auto
  have syn: "synthesize cv0 (4, 4) image4 [?R] =
               Inr (frombuffer (cvtColor (finish cv0 (4, 4) ?A ?M (fst st))) (4, 4))"
    using st by (cases st) (simp add: synthesize_def image4_array Let_def)
  have "fillPoly cv0 (4, 4) zeros (polygon ?R) 255 (1, 0) > 0"
    by (simp add: process_region_def data2_def fillPoly_def in_frame_def cv0_def)
  then have mi: "mask_inpaint (4, 4) ?M (1, 0) > 0"
    by (intro region_pixel_in_mask_inpaint[of ?R]) (simp_all add: process_region_def data2_def)
  have cm: "?M (1, 0) = 255"
    by (simp add: composite_mask_spec spec_composite_mask_def spec_region_def in_frame_def
          process_region_def data2_def cv0_def)
  have "get_at (frombuffer (cvtColor (finish cv0 (4, 4) ?A ?M (fst st))) (4, 4)) (1, 0)
          = Inr (0, 0, 0)"
    by (simp add: frombuffer_at_1_0 cvtColor_def finish_cv0[OF mi cm])
  with syn show ?thesis by blast
qed

text \<open>
  C6, as stated: whenever OpenCV is unavailable at construction, the hidden surface is an
  exact copy of the original image. When the import fails and the installation that
  \<open>_apply_inpainting\<close> then attempts makes the second import succeed, the regions are
  synthesized as usual and the hidden surface is not the original image (here with the
  small library of the examples, which blackens the hole): the claim fails.
\<close>

theorem C6_counterexample:
  "map_sum id hidden_surface
     (HiddenEffect_init cv2_installed cv0 image4 4 4 (Some [data2])) \<noteq> Inr (Some image4)"
proof -
  obtain hid where hid: "synthesize cv0 (4, 4) image4 [process_region data2] = Inr hid"
    and px: "get_at hid (1, 0) = Inr (0, 0, 0)"
    using synthesize_example by blast
  have "get_at image4 (1, 0) = Inr (1, 0, 0)"
    by (simp add: get_at_def image4_def)
  with px have "hid \<noteq> image4" by auto
  moreover have "map_sum id hidden_surface
     (HiddenEffect_init cv2_installed cv0 image4 4 4 (Some [data2])) = Inr (Some hid)"
    using hid
    by (simp add: HiddenEffect_init_def apply_inpainting_def process_regions_def
          cv2_installed_def)
  ultimately show ?thesis by simp
qed

text \<open>
  C6, amended: if OpenCV can be imported neither at once nor after the installation that
  \<open>_apply_inpainting\<close> attempts, \<open>_apply_inpainting\<close> returns normally with the hidden
  surface set to the original image and nothing else changed; so the construction of an
  effect with region data (the case in which the constructor runs it) returns normally
  with the hidden surface equal to the original image. If either import succeeds, the
  outcome is that of the synthesis: its error, or its result as the hidden surface.
\<close>

theorem C6_amended:
  "(\<not> has_cv2 cap \<and> \<not> install_works cap \<longrightarrow>
      apply_inpainting cap cv s = Inr (s\<lparr>hidden_surface := Some (h_original s)\<rparr>) \<and>
      (\<exists>s'. HiddenEffect_init cap cv img w h (Some (d # ds)) = Inr s' \<and>
            hidden_surface s' = Some img \<and> h_original s' = img \<and>
            h_current_surface s' = img \<and> h_time s' = 0 \<and> \<not> h_is_complete s' \<and>
            regions s' = map process_region (d # ds))) \<and>
   (has_cv2 cap \<or> install_works cap \<longrightarrow>
      apply_inpainting cap cv s =
        (case synthesize cv (h_screen_width s, h_screen_height s) (h_original s) (regions s) of
           Inl e \<Rightarrow> Inl e
         | Inr hid \<Rightarrow> Inr (s\<lparr>hidden_surface := Some hid\<rparr>)))"
  by (auto simp add: apply_inpainting_def HiddenEffect_init_def process_regions_def)

theorem C6_amended_witness:
  "\<not> has_cv2 no_cv2 \<and> \<not> install_works no_cv2 \<and>
   apply_inpainting no_cv2 cv0 hidden0 = Inr (hidden0\<lparr>hidden_surface := Some image0\<rparr>) \<and>
   map_sum id hidden_surface (HiddenEffect_init no_cv2 cv0 image0 2 2 (Some [data0]))
     = Inr (Some image0) \<and>
   (has_cv2 cv2_installed \<or> install_works cv2_installed) \<and>
   (\<exists>hid. apply_inpainting cv2_installed cv0 hidden4 = Inr (hidden4\<lparr>hidden_surface := Some hid\<rparr>) \<and>
          get_at hid (1, 0) = Inr (0, 0, 0))"
proof -
  have h: "\<not> has_cv2 no_cv2 \<and> \<not> install_works no_cv2" by (simp add: no_cv2_def)
  have i: "has_cv2 cv2_installed \<or> install_works cv2_installed"
    by (simp add: cv2_installed_def)
  have o: "h_original hidden0 = image0" by (simp add: hidden0_def)
  obtain hid where
    sy: "synthesize cv0 (h_screen_width hidden4, h_screen_height hidden4)
              (h_original hidden4) (regions hidden4) = Inr hid"
    and px: "get_at hid (1, 0) = Inr (0, 0, 0)"
    using synthesize_example by (auto simp add: hidden4_def)
  from C6_amended [of no_cv2 cv0 hidden0 image0 2 2 data0 "[]"] h o
  have a: "apply_inpainting no_cv2 cv0 hidden0 = Inr (hidden0\<lparr>hidden_surface := Some image0\<rparr>)"
    "map_sum id hidden_surface (HiddenEffect_init no_cv2 cv0 image0 2 2 (Some [data0]))
       = Inr (Some image0)"
    by auto
  from C6_amended [of cv2_installed cv0 hidden4] i sy
  have b: "apply_inpainting cv2_installed cv0 hidden4 = Inr (hidden4\<lparr>hidden_surface := Some hid\<rparr>)"
    by simp
  from h i a b px show ?thesis by blast
qed

end
